theory Spec2Isabelle
  imports Complex_Main "HOL-Library.Log_Nat"
begin

section \<open>JavaScript values\<close>

text \<open>
  A JavaScript number is an IEEE double. \<open>Fin r\<close> is the finite double whose exact value
  is the rational \<open>r\<close> (\<open>Fin 0\<close> is \<open>+0\<close>), \<open>NegZero\<close> is \<open>-0\<close>.
\<close>

datatype jsnum = NaN | PInf | NInf | NegZero | Fin rat

text \<open>
  The values the program handles: what \<open>response.json()\<close> yields (null, booleans, numbers,
  strings, arrays, objects) and \<open>undefined\<close>, which a read of a missing property gives.
  An object is the list of its own properties in insertion order; the first binding of a
  key is the property.
\<close>

datatype jsval =
    JUndefined
  | JNull
  | JBool bool
  | JNum jsnum
  | JStr string
  | JArr "jsval list"
  | JObj "(string \<times> jsval) list"

text \<open>An exception: the error object's class name and its \<open>message\<close>.\<close>

datatype js_error = JsError (error_name: string) (message: string)

text \<open>\<open>!!v\<close>: every value is truthy but undefined, null, false, 0, -0, NaN and the empty string.\<close>

fun truthy :: "jsval \<Rightarrow> bool" where
  "truthy JUndefined = False"
| "truthy JNull = False"
| "truthy (JBool b) = b"
| "truthy (JNum n) = (n \<noteq> NaN \<and> n \<noteq> NegZero \<and> n \<noteq> Fin 0)"
| "truthy (JStr s) = (s \<noteq> [])"
| "truthy (JArr xs) = True"
| "truthy (JObj kvs) = True"

fun nullish :: "jsval \<Rightarrow> bool" where
  "nullish JUndefined = True"
| "nullish JNull = True"
| "nullish v = False"

subsection \<open>Decimal digits\<close>

definition digit_char :: "nat \<Rightarrow> char" where
  "digit_char d = ''0123456789'' ! d"

fun dec :: "nat \<Rightarrow> string" where
  "dec n = (if n < 10 then [digit_char n] else dec (n div 10) @ [digit_char (n mod 10)])"

declare dec.simps [simp del]

text \<open>\<open>s.includes(pat)\<close>: \<open>pat\<close> occurs in \<open>s\<close> as a contiguous run.\<close>

fun str_includes :: "string \<Rightarrow> string \<Rightarrow> bool" where
  "str_includes [] pat = (pat = [])"
| "str_includes (c # cs) pat = (take (length pat) (c # cs) = pat \<or> str_includes cs pat)"

subsection \<open>Numbers\<close>

text \<open>
  Arithmetic on doubles rounds the exact result to the nearest double, ties to the even
  mantissa: \<open>rd x\<close> is that double for a rational \<open>x\<close> below the overflow threshold
  (53-bit mantissa, least exponent -1074).
\<close>

definition round_half_even :: "rat \<Rightarrow> int" where
  "round_half_even m =
     (let f = \<lfloor>m\<rfloor>; r = m - of_int f
      in if r < 1 / 2 then f else if 1 / 2 < r then f + 1 else if even f then f else f + 1)"

definition ilog2 :: "rat \<Rightarrow> int" where
  "ilog2 a =
     (let (n, d) = quotient_of a; k = bitlen n - bitlen d
      in if 2 powi k \<le> a then k else k - 1)"

definition rd :: "rat \<Rightarrow> rat" where
  "rd x =
     (if x = 0 then 0
      else let a = \<bar>x\<bar>; p = max (ilog2 a - 52) (- 1074); u = 2 powi p
           in sgn x * of_int (round_half_even (a / u)) * u)"

text \<open>\<open>x / c\<close> for a literal \<open>c \<ge> 1\<close> (the program divides by 100, 1000 and 1000000 only).\<close>

definition num_div :: "jsnum \<Rightarrow> rat \<Rightarrow> jsnum" where
  "num_div x c =
     (case x of
        Fin r \<Rightarrow> (let q = rd (r / c) in if q = 0 \<and> r < 0 then NegZero else Fin q)
      | _ \<Rightarrow> x)"

text \<open>\<open>x >= c\<close> for a finite literal \<open>c\<close>.\<close>

definition num_ge :: "jsnum \<Rightarrow> rat \<Rightarrow> bool" where
  "num_ge x c =
     (case x of
        NaN \<Rightarrow> False
      | PInf \<Rightarrow> True
      | NInf \<Rightarrow> False
      | NegZero \<Rightarrow> c \<le> 0
      | Fin r \<Rightarrow> c \<le> r)"

text \<open>
  What the JavaScript runtime supplies and this development leaves open:
  \<open>toLocaleString()\<close> of a number in the host's default locale, \<open>Number::toString\<close> (the
  decimal text of a number: used by \<open>toFixed\<close> from 10^21 on, and when an array that holds
  a number is joined), and \<open>StringToNumber\<close> (the number a string denotes, NaN when it
  denotes none). None of them throws.
\<close>

record host =
  locale_string :: "jsnum \<Rightarrow> string"
  number_toString :: "jsnum \<Rightarrow> string"
  string_to_number :: "string \<Rightarrow> jsnum"

text \<open>
  \<open>x.toFixed(1)\<close> (ECMA-262, Number.prototype.toFixed): for a finite \<open>x\<close> below 10^21 in
  magnitude, the integer \<open>n\<close> with \<open>n / 10\<close> nearest to the exact value of \<open>\<bar>x\<bar>\<close> (the
  larger of two), written with a point before its last digit.
\<close>

definition toFixed1 :: "host \<Rightarrow> jsnum \<Rightarrow> string" where
  "toFixed1 h x =
     (case x of
        NaN \<Rightarrow> ''NaN''
      | PInf \<Rightarrow> ''Infinity''
      | NInf \<Rightarrow> ''-Infinity''
      | NegZero \<Rightarrow> ''0.0''
      | Fin r \<Rightarrow>
          (let s = (if r < 0 then ''-'' else []); a = \<bar>r\<bar>
           in if 10 ^ 21 \<le> a then s @ number_toString h (Fin a)
              else let m = dec (nat \<lfloor>a * 10 + 1 / 2\<rfloor>);
                       m' = (if length m \<le> 1 then ''0'' @ m else m)
                   in s @ butlast m' @ ''.'' @ [last m']))"

text \<open>\<open>`${n}`\<close> for an integer \<open>n\<close> below 10^21 in magnitude: its decimal numeral.\<close>

definition show_int :: "int \<Rightarrow> string" where
  "show_int i = (if i < 0 then ''-'' @ dec (nat (- i)) else dec (nat i))"

subsection \<open>Property reads\<close>

text \<open>
  \<open>get_prop v k\<close> reads property \<open>k\<close> of a value that is neither null nor undefined: an own
  property of an object, \<open>length\<close> or an index of an array or a string, undefined
  otherwise. (Of the inherited properties the program only touches the methods \<open>slice\<close>
  and \<open>map\<close>, modelled where they are called, and \<open>toString\<close> and \<open>valueOf\<close>, through
  the conversion to a number.)
\<close>

fun get_prop :: "jsval \<Rightarrow> string \<Rightarrow> jsval" where
  "get_prop (JObj kvs) k = (case map_of kvs k of None \<Rightarrow> JUndefined | Some v \<Rightarrow> v)"
| "get_prop (JArr xs) k =
     (if k = ''length'' then JNum (Fin (of_nat (length xs)))
      else case filter (\<lambda>i. dec i = k) [0..<length xs] of
             [] \<Rightarrow> JUndefined
           | i # _ \<Rightarrow> xs ! i)"
| "get_prop (JStr s) k =
     (if k = ''length'' then JNum (Fin (of_nat (length s)))
      else case filter (\<lambda>i. dec i = k) [0..<length s] of
             [] \<Rightarrow> JUndefined
           | i # _ \<Rightarrow> JStr [s ! i])"
| "get_prop v k = JUndefined"

text \<open>\<open>v.k\<close>: a TypeError on null and undefined (the message as V8 words it).\<close>

definition dot :: "jsval \<Rightarrow> string \<Rightarrow> js_error + jsval" where
  "dot v k =
     (if nullish v
      then Inl (JsError ''TypeError''
             (''Cannot read properties of '' @ (if v = JNull then ''null'' else ''undefined'')
              @ '' (reading '' @ [CHR 0x27] @ k @ [CHR 0x27] @ '')''))
      else Inr (get_prop v k))"

text \<open>\<open>v?.k\<close> (and \<open>v?.[0]\<close> with \<open>k = ''0''\<close>).\<close>

definition opt :: "jsval \<Rightarrow> string \<Rightarrow> jsval" where
  "opt v k = (if nullish v then JUndefined else get_prop v k)"

definition andThen :: "js_error + 'a \<Rightarrow> ('a \<Rightarrow> js_error + 'b) \<Rightarrow> js_error + 'b" where
  "andThen m f = (case m of Inl e \<Rightarrow> Inl e | Inr v \<Rightarrow> f v)"

subsection \<open>Conversion to a string and to a number\<close>

text \<open>
  The values are those of a parsed JSON text, so no property of theirs is a function. An
  object (\<open>OrdinaryToPrimitive\<close> of ECMA-262) is converted by the inherited \<open>toString\<close>,
  which gives \<open>[object Object]\<close>, unless an own property \<open>toString\<close> hides it: then
  neither \<open>toString\<close> nor \<open>valueOf\<close> yields a primitive, and the conversion throws a
  TypeError (the message as V8 words it). An array is converted by
  \<open>Array.prototype.toString\<close>, that is \<open>join\<close>: its elements converted in order, null and
  undefined as the empty string, with commas between them.
\<close>

definition no_primitive_value :: js_error where
  "no_primitive_value = JsError ''TypeError'' ''Cannot convert object to primitive value''"

fun to_string :: "host \<Rightarrow> jsval \<Rightarrow> js_error + string"
  and join :: "host \<Rightarrow> jsval list \<Rightarrow> js_error + string" where
  "to_string h JUndefined = Inr ''undefined''"
| "to_string h JNull = Inr ''null''"
| "to_string h (JBool b) = Inr (if b then ''true'' else ''false'')"
| "to_string h (JNum n) = Inr (number_toString h n)"
| "to_string h (JStr s) = Inr s"
| "to_string h (JArr xs) = join h xs"
| "to_string h (JObj kvs) =
     (if ''toString'' \<in> set (map fst kvs) then Inl no_primitive_value
      else Inr ''[object Object]'')"
| "join h [] = Inr []"
| "join h (x # xs) =
     andThen (if nullish x then Inr [] else to_string h x)
       (\<lambda>s. if xs = [] then Inr s else andThen (join h xs) (\<lambda>r. Inr (s @ '','' @ r)))"

text \<open>
  \<open>ToNumber\<close>, as the operator \<open>/\<close> applies it to its left operand. An object without
  an own \<open>toString\<close> becomes the string \<open>[object Object]\<close>, which denotes no number.
\<close>

fun to_number :: "host \<Rightarrow> jsval \<Rightarrow> js_error + jsnum" where
  "to_number h JUndefined = Inr NaN"
| "to_number h JNull = Inr (Fin 0)"
| "to_number h (JBool b) = Inr (Fin (if b then 1 else 0))"
| "to_number h (JNum n) = Inr n"
| "to_number h (JStr s) = Inr (string_to_number h s)"
| "to_number h (JArr xs) = andThen (join h xs) (\<lambda>s. Inr (string_to_number h s))"
| "to_number h (JObj kvs) =
     (if ''toString'' \<in> set (map fst kvs) then Inl no_primitive_value else Inr NaN)"

subsection \<open>Calls and object literals\<close>

text \<open>\<open>m?.k\<close> after an expression \<open>m\<close> that may throw.\<close>

definition chain :: "js_error + jsval \<Rightarrow> string \<Rightarrow> js_error + jsval" where
  "chain m k = andThen m (\<lambda>v. Inr (opt v k))"

text \<open>\<open>a || b\<close>: \<open>b\<close> is evaluated only when \<open>a\<close> is falsy.\<close>

definition or_else :: "js_error + jsval \<Rightarrow> js_error + jsval \<Rightarrow> js_error + jsval" where
  "or_else a b = andThen a (\<lambda>v. if truthy v then Inr v else b)"

text \<open>An object literal: the property values are evaluated in order, the first throw wins.\<close>

fun literal_fields :: "(string \<times> (js_error + jsval)) list \<Rightarrow> js_error + (string \<times> jsval) list" where
  "literal_fields [] = Inr []"
| "literal_fields ((k, m) # rest) =
     andThen m (\<lambda>v. andThen (literal_fields rest) (\<lambda>kvs. Inr ((k, v) # kvs)))"

definition object :: "(string \<times> (js_error + jsval)) list \<Rightarrow> js_error + jsval" where
  "object kms = andThen (literal_fields kms) (\<lambda>kvs. Inr (JObj kvs))"

definition not_a_function :: "string \<Rightarrow> js_error" where
  "not_a_function expr = JsError ''TypeError'' (expr @ '' is not a function'')"

text \<open>
  \<open>v.slice(0, 3)\<close>: arrays and strings have the method; on any other value the call is a
  TypeError (\<open>expr\<close> is the callee as the message quotes it).
\<close>

definition slice3 :: "string \<Rightarrow> jsval \<Rightarrow> js_error + jsval" where
  "slice3 expr v =
     (case v of
        JArr xs \<Rightarrow> Inr (JArr (take 3 xs))
      | JStr s \<Rightarrow> Inr (JStr (take 3 s))
      | JUndefined \<Rightarrow> dot v ''slice''
      | JNull \<Rightarrow> dot v ''slice''
      | _ \<Rightarrow> Inl (not_a_function expr))"

text \<open>\<open>v.map(f)\<close>: only arrays have the method; the callback runs on the elements in order.\<close>

fun map_res :: "('a \<Rightarrow> js_error + 'b) \<Rightarrow> 'a list \<Rightarrow> js_error + 'b list" where
  "map_res f [] = Inr []"
| "map_res f (x # xs) = andThen (f x) (\<lambda>y. andThen (map_res f xs) (\<lambda>ys. Inr (y # ys)))"

definition array_map :: "string \<Rightarrow> jsval \<Rightarrow> (jsval \<Rightarrow> js_error + jsval) \<Rightarrow> js_error + jsval" where
  "array_map expr v f =
     (case v of
        JArr xs \<Rightarrow> andThen (map_res f xs) (\<lambda>ys. Inr (JArr ys))
      | JUndefined \<Rightarrow> dot v ''map''
      | JNull \<Rightarrow> dot v ''map''
      | _ \<Rightarrow> Inl (not_a_function expr))"

text \<open>
  \<open>[...new Set(prices)]\<close>: the values are added in order; \<open>-0\<close> is stored as \<open>+0\<close>, and a
  value is skipped when the set holds the same value already. A primitive is the same
  value as an equal primitive; an object or an array is the same value as itself only,
  and two entries of a parsed payload are never the same object.
\<close>

fun primitive :: "jsval \<Rightarrow> bool" where
  "primitive (JArr xs) = False"
| "primitive (JObj kvs) = False"
| "primitive v = True"

definition stored :: "jsval \<Rightarrow> jsval" where
  "stored v = (if v = JNum NegZero then JNum (Fin 0) else v)"

definition set_add :: "jsval list \<Rightarrow> jsval \<Rightarrow> jsval list" where
  "set_add acc v =
     (let v' = stored v
      in if primitive v' \<and> v' \<in> set acc then acc else acc @ [v'])"

definition set_values :: "jsval list \<Rightarrow> jsval list" where
  "set_values vs = foldl set_add [] vs"

section \<open>The essential-data extractor\<close>

text \<open>
  \<open>formatRevenue\<close>: the division \<open>cents / 100\<close> converts \<open>cents\<close> to a number first, which
  throws for an object or an array without a primitive value.
\<close>

definition formatRevenue :: "host \<Rightarrow> jsval \<Rightarrow> js_error + string" where
  "formatRevenue h cents =
     (if \<not> truthy cents \<or> cents = JNum (Fin 0) \<or> cents = JNum NegZero then Inr ''$0''
      else andThen (to_number h cents) (\<lambda>n.
             let dollars = num_div n 100
             in if num_ge dollars 1000000
                then Inr (''$'' @ toFixed1 h (num_div dollars 1000000) @ ''M'')
                else if num_ge dollars 1000
                then Inr (''$'' @ toFixed1 h (num_div dollars 1000) @ ''K'')
                else Inr (''$'' @ locale_string h dollars)))"

definition extractCategoryRankings :: "jsval \<Rightarrow> string \<Rightarrow> jsval" where
  "extractCategoryRankings rankings platform =
     (if \<not> truthy rankings then JObj []
      else
        let deviceType = (if platform = ''ios'' then ''iphone'' else ''phone'');
            entry = (\<lambda>deviceRankings chart.
              or_else (Inr (opt (opt (opt deviceRankings chart) ''primary_categories'') ''0''))
                (Inr JNull))
        in case andThen (or_else (dot rankings deviceType) (Inr rankings))
                  (\<lambda>deviceRankings.
                     object
                       [(''top_free'', entry deviceRankings ''top_free''),
                        (''top_grossing'', entry deviceRankings ''top_grossing''),
                        (''top_paid'', entry deviceRankings ''top_paid'')])
           of Inl e \<Rightarrow> JObj []
            | Inr r \<Rightarrow> r)"

definition extractTopIAPPrices :: "jsval \<Rightarrow> jsval" where
  "extractTopIAPPrices iapData =
     (if \<not> truthy iapData then JArr []
      else
        case andThen (dot iapData ''US'')
               (\<lambda>us. if truthy us
                  then andThen (slice3 ''iapData.US.slice'' us)
                         (\<lambda>sl. andThen (array_map ''iapData.US.slice(...).map'' sl
                                           (\<lambda>iap. dot iap ''price''))
                            (\<lambda>ps. case ps of JArr prices \<Rightarrow> Inr prices | _ \<Rightarrow> Inr []))
                  else Inr [])
        of Inl e \<Rightarrow> JArr []
         | Inr prices \<Rightarrow> JArr (set_values prices))"

text \<open>The callback of \<open>top_competitors\<close>: one related app reduced to name, rating, price.\<close>

definition competitor :: "jsval \<Rightarrow> js_error + jsval" where
  "competitor app =
     object
       [(''name'', or_else (dot app ''name'') (dot app ''title'')),
        (''rating'', or_else (dot app ''rating'') (dot app ''score'')),
        (''price'',
           or_else (or_else (chain (dot app ''price'') ''string_value'') (dot app ''priceText''))
             (Inr (JStr ''Free'')))]"

definition top_competitors :: "jsval \<Rightarrow> js_error + jsval" where
  "top_competitors rawData =
     or_else
       (andThen (dot rawData ''related_apps'')
          (\<lambda>related. if nullish related then Inr JUndefined
             else andThen (slice3 ''rawData.related_apps?.slice'' related)
                    (\<lambda>sl. if nullish sl then Inr JUndefined
                       else array_map ''rawData.related_apps?.slice(...)?.map'' sl competitor)))
       (Inr (JArr []))"

definition top_countries :: "jsval \<Rightarrow> js_error + jsval" where
  "top_countries rawData =
     or_else
       (andThen (dot rawData ''top_countries'')
          (\<lambda>tc. if nullish tc then Inr JUndefined
             else slice3 ''rawData.top_countries?.slice'' tc))
       (Inr (JArr []))"

text \<open>The \<open>try\<close> block of \<open>extractEssentialRevenueData\<close>: the object literal \<open>essential\<close>.\<close>

definition app_info :: "jsval \<Rightarrow> string \<Rightarrow> jsval \<Rightarrow> js_error + jsval" where
  "app_info rawData platform identifier =
     object
       [(''id'',
           if platform = ''ios'' then dot rawData ''app_id''
           else or_else (dot rawData ''package_name'') (Inr identifier)),
        (''name'', or_else (dot rawData ''name'') (dot rawData ''title'')),
        (''publisher'', or_else (dot rawData ''publisher_name'') (dot rawData ''developer'')),
        (''platform'', Inr (JStr platform)),
        (''category'',
           or_else (chain (chain (dot rawData ''categories'') ''0'') ''name'')
             (Inr (JStr ''Unknown''))),
        (''content_rating'', dot rawData ''content_rating''),
        (''current_version'', dot rawData ''current_version'')]"

definition revenue_metrics :: "host \<Rightarrow> jsval \<Rightarrow> js_error + jsval" where
  "revenue_metrics h rawData =
     object
       [(''last_month_revenue'',
           or_else (chain (dot rawData ''worldwide_last_month_revenue'') ''value'')
             (Inr (JNum (Fin 0)))),
        (''last_month_downloads'',
           or_else (chain (dot rawData ''worldwide_last_month_downloads'') ''value'')
             (Inr (JNum (Fin 0)))),
        (''revenue_currency'',
           or_else (chain (dot rawData ''worldwide_last_month_revenue'') ''currency'')
             (Inr (JStr ''USD''))),
        (''revenue_formatted'',
           andThen
             (or_else (chain (dot rawData ''worldwide_last_month_revenue'') ''value'')
                (Inr (JNum (Fin 0))))
             (\<lambda>cents. andThen (formatRevenue h cents) (\<lambda>formatted. Inr (JStr formatted))))]"

definition market_position :: "jsval \<Rightarrow> string \<Rightarrow> js_error + jsval" where
  "market_position rawData platform =
     object
       [(''overall_rating'', or_else (dot rawData ''rating'') (dot rawData ''score'')),
        (''rating_count'', or_else (dot rawData ''rating_count'') (dot rawData ''reviews'')),
        (''top_countries'', top_countries rawData),
        (''category_rankings'',
           andThen (dot rawData ''category_rankings'')
             (\<lambda>rankings. Inr (extractCategoryRankings rankings platform)))]"

definition monetization :: "jsval \<Rightarrow> js_error + jsval" where
  "monetization rawData =
     object
       [(''price'',
           or_else
             (or_else (chain (dot rawData ''price'') ''string_value'') (dot rawData ''priceText''))
             (Inr (JStr ''Free''))),
        (''has_in_app_purchases'',
           or_else
             (or_else (dot rawData ''has_in_app_purchases'') (dot rawData ''offersIAP''))
             (Inr (JBool False))),
        (''top_iap_prices'',
           andThen (dot rawData ''top_in_app_purchases'')
             (\<lambda>iapData. Inr (extractTopIAPPrices iapData)))]"

definition competitive_analysis :: "jsval \<Rightarrow> js_error + jsval" where
  "competitive_analysis rawData =
     object
       [(''related_apps_count'',
           or_else (chain (dot rawData ''related_apps'') ''length'') (Inr (JNum (Fin 0)))),
        (''top_competitors'', top_competitors rawData)]"

definition essential :: "host \<Rightarrow> jsval \<Rightarrow> string \<Rightarrow> jsval \<Rightarrow> js_error + jsval" where
  "essential h rawData platform identifier =
     object
       [(''app_info'', app_info rawData platform identifier),
        (''revenue_metrics'', revenue_metrics h rawData),
        (''market_position'', market_position rawData platform),
        (''monetization'', monetization rawData),
        (''competitive_analysis'', competitive_analysis rawData)]"

text \<open>
  The result type has the error alternative so that "never raises" is a statement about
  the function: the \<open>catch\<close> block reads \<open>error.message\<close> of the thrown error object
  and \<open>!!rawData\<close>, and neither read throws.
\<close>

definition extractEssentialRevenueData ::
  "host \<Rightarrow> jsval \<Rightarrow> string \<Rightarrow> jsval \<Rightarrow> js_error + jsval" where
  "extractEssentialRevenueData h rawData platform identifier =
     (if \<not> truthy rawData then Inr JNull
      else
        case essential h rawData platform identifier of
          Inr r \<Rightarrow> Inr r
        | Inl error \<Rightarrow>
            object
              [(''error'', Inr (JStr (''Failed to extract data: '' @ message error))),
               (''raw_data_available'', Inr (JBool (truthy rawData)))])"

section \<open>The response cache\<close>

text \<open>
  \<open>sensorTowerCache\<close> is a \<open>Map\<close> from the final cache key to \<open>{data, timestamp}\<close>.
  The world a call runs in: the cache, the clock \<open>Date.now()\<close> reads (milliseconds), and
  the outbound requests issued so far.
\<close>

record cache_entry =
  data :: jsval
  timestamp :: int

record world =
  cache :: "string \<rightharpoonup> cache_entry"
  clock :: int
  sent :: "string list"

text \<open>
  What \<open>fetch\<close> and \<open>response.json()\<close> can do: \<open>fetch\<close> rejects, or a response arrives with
  its status, status text and a body that parses to a value or fails to parse. The
  upstream gives, for the number of requests sent before and the URL, the reply and the
  milliseconds that pass while the call awaits it.
\<close>

datatype body = Parsed jsval | Unparseable js_error

datatype reply = Rejected js_error | Response nat string body

type_synonym upstream = "nat \<Rightarrow> string \<Rightarrow> reply \<times> nat"

definition CACHE_DURATION :: int where
  "CACHE_DURATION = 30 * 24 * 60 * 60 * 1000"

text \<open>\<open>country ? `${cacheKey}_${country}` : cacheKey\<close>; \<open>country\<close> is null or a string.\<close>

definition finalCacheKey :: "string \<Rightarrow> string option \<Rightarrow> string" where
  "finalCacheKey cacheKey country =
     (case country of
        None \<Rightarrow> cacheKey
      | Some c \<Rightarrow> if c \<noteq> [] then cacheKey @ ''_'' @ c else cacheKey)"

definition finalEndpoint :: "string \<Rightarrow> string option \<Rightarrow> string" where
  "finalEndpoint endpoint country =
     (case country of
        None \<Rightarrow> endpoint
      | Some c \<Rightarrow> if c \<noteq> [] then endpoint @ ''?country='' @ c else endpoint)"

text \<open>\<open>response.ok\<close>: the status is in 200..299.\<close>

definition response_ok :: "nat \<Rightarrow> bool" where
  "response_ok st = (200 \<le> st \<and> st \<le> 299)"

definition rate_limit_error :: js_error where
  "rate_limit_error = JsError ''Error'' ''Rate limit exceeded. Please try again later.''"

text \<open>The \<open>try\<close> block from the reply on, up to \<open>const data = await response.json()\<close>.\<close>

definition read_reply :: "reply \<Rightarrow> js_error + jsval" where
  "read_reply rep =
     (case rep of
        Rejected e \<Rightarrow> Inl e
      | Response st txt b \<Rightarrow>
          if st = 429 then Inl rate_limit_error
          else if \<not> response_ok st then Inl (JsError ''Error'' (''HTTP '' @ dec st @ '': '' @ txt))
          else (case b of Unparseable e \<Rightarrow> Inl e | Parsed d \<Rightarrow> Inr d))"

text \<open>The \<open>catch\<close> block: a message that includes 'Rate limit' is rethrown, any other wrapped.\<close>

definition rethrow :: "js_error \<Rightarrow> js_error" where
  "rethrow e =
     (if str_includes (message e) ''Rate limit'' then e
      else JsError ''Error'' (''Failed to fetch data from Sensor Tower: '' @ message e))"

text \<open>The cache check: \<open>cached && Date.now() - cached.timestamp < CACHE_DURATION\<close>.\<close>

definition fresh :: "world \<Rightarrow> string \<Rightarrow> cache_entry option" where
  "fresh w k =
     (case cache w k of
        None \<Rightarrow> None
      | Some cached \<Rightarrow> if clock w - timestamp cached < CACHE_DURATION then Some cached else None)"

definition callSensorTowerAPI ::
  "upstream \<Rightarrow> string \<Rightarrow> string \<Rightarrow> string option \<Rightarrow> world \<Rightarrow> (js_error + jsval) \<times> world" where
  "callSensorTowerAPI up endpoint cacheKey country w =
     (let k = finalCacheKey cacheKey country in
      case fresh w k of
        Some cached \<Rightarrow> (Inr (data cached), w)
      | None \<Rightarrow>
          (let url = finalEndpoint endpoint country;
               (rep, dt) = up (length (sent w)) url;
               w1 = w\<lparr>clock := clock w + int dt, sent := sent w @ [url]\<rparr>
           in case read_reply rep of
                Inr d \<Rightarrow>
                  (Inr d, w1\<lparr>cache := (cache w1)(k \<mapsto> \<lparr>data = d, timestamp = clock w1\<rparr>)\<rparr>)
              | Inl e \<Rightarrow> (Inl (rethrow e), w1)))"

section \<open>The revenue tools\<close>

text \<open>
  The handlers of \<open>sensor-tower-ios-revenue\<close> and \<open>sensor-tower-android-revenue\<close> are the
  same code up to the platform tag, the name of the identifier property in a result, the
  endpoint and cache key built from an identifier, and the identifier's type (a number
  for iOS, a string for Android). A \<open>tool\<close> holds what differs.
\<close>

record 'id tool =
  tool_platform :: string
  id_field :: string
  endpoint_of :: "'id \<Rightarrow> string"
  cacheKey_of :: "'id \<Rightarrow> string"
  as_value :: "'id \<Rightarrow> jsval"

text \<open>
  App Store IDs are integers; \<open>`ios_${appId}`\<close> holds the decimal numeral of \<open>appId\<close>.
\<close>

definition ios_tool :: "int tool" where
  "ios_tool =
     \<lparr>tool_platform = ''ios'',
      id_field = ''app_id'',
      endpoint_of = (\<lambda>appId. ''https://app.sensortower.com/api/ios/apps/'' @ show_int appId),
      cacheKey_of = (\<lambda>appId. ''ios_'' @ show_int appId),
      as_value = (\<lambda>appId. JNum (Fin (of_int appId)))\<rparr>"

definition android_tool :: "string tool" where
  "android_tool =
     \<lparr>tool_platform = ''android'',
      id_field = ''package_name'',
      endpoint_of = (\<lambda>packageName. ''https://app.sensortower.com/api/android/apps/'' @ packageName),
      cacheKey_of = (\<lambda>packageName. ''android_'' @ packageName),
      as_value = JStr\<rparr>"

text \<open>\<open>delete o.k\<close>.\<close>

fun delete_prop :: "jsval \<Rightarrow> string \<Rightarrow> jsval" where
  "delete_prop (JObj kvs) k = JObj (filter (\<lambda>kv. fst kv \<noteq> k) kvs)"
| "delete_prop v k = v"

text \<open>
  The inner \<open>try\<close> block of the loop: fetch, extract, drop the competitors when they were
  not asked for, and build the result that is pushed.
\<close>

definition try_app ::
  "'id tool \<Rightarrow> host \<Rightarrow> upstream \<Rightarrow> bool \<Rightarrow> string option \<Rightarrow> 'id \<Rightarrow> world
     \<Rightarrow> (js_error + jsval) \<times> world" where
  "try_app t h up includeCompetitors country appId w =
     (let endpoint = endpoint_of t appId;
          cacheKey = cacheKey_of t appId;
          (fetched, w') = callSensorTowerAPI up endpoint cacheKey country w
      in (andThen fetched (\<lambda>rawData.
            andThen (extractEssentialRevenueData h rawData (tool_platform t) (as_value t appId))
              (\<lambda>essentialData.
                 andThen
                   (if \<not> includeCompetitors
                    then andThen (dot essentialData ''competitive_analysis'') (\<lambda>c. Inr (truthy c))
                    else Inr False)
                   (\<lambda>remove.
                      Inr (JObj
                        [(id_field t, as_value t appId),
                         (''success'', JBool True),
                         (''data'',
                            if remove then delete_prop essentialData ''competitive_analysis''
                            else essentialData)])))),
          w'))"

text \<open>One iteration of the loop: the \<open>try\<close> block and its \<open>catch\<close>.\<close>

definition process_app ::
  "'id tool \<Rightarrow> host \<Rightarrow> upstream \<Rightarrow> bool \<Rightarrow> string option \<Rightarrow> 'id \<Rightarrow> world \<Rightarrow> jsval \<times> world" where
  "process_app t h up includeCompetitors country appId w =
     (case try_app t h up includeCompetitors country appId w of
        (Inr result, w') \<Rightarrow> (result, w')
      | (Inl error, w') \<Rightarrow>
          (JObj
             [(id_field t, as_value t appId),
              (''success'', JBool False),
              (''error'', JStr (message error))],
           w'))"

text \<open>\<open>for (const appId of ids)\<close>: the results in the order they are pushed.\<close>

fun process_all ::
  "'id tool \<Rightarrow> host \<Rightarrow> upstream \<Rightarrow> bool \<Rightarrow> string option \<Rightarrow> 'id list \<Rightarrow> world
     \<Rightarrow> jsval list \<times> world" where
  "process_all t h up includeCompetitors country [] w = ([], w)"
| "process_all t h up includeCompetitors country (appId # ids) w =
     (let (r, w') = process_app t h up includeCompetitors country appId w;
          (rs, w'') = process_all t h up includeCompetitors country ids w'
      in (r # rs, w''))"

text \<open>The argument \<open>appIds\<close> (\<open>packageNames\<close>): one identifier or an array of them.\<close>

datatype 'id one_or_many = One 'id | Many "'id list"

text \<open>
  The handler, up to the summary it serialises with \<open>JSON.stringify\<close>. (\<open>r.success\<close>
  reads a result, which is an object. Nothing outside the inner \<open>try\<close> throws, so the
  outer \<open>catch\<close> is never entered.)
\<close>

definition revenue_tool ::
  "'id tool \<Rightarrow> host \<Rightarrow> upstream \<Rightarrow> 'id one_or_many \<Rightarrow> bool \<Rightarrow> string option \<Rightarrow> world
     \<Rightarrow> jsval \<times> world" where
  "revenue_tool t h up appIds includeCompetitors country w =
     (let ids = (case appIds of One appId \<Rightarrow> [appId] | Many l \<Rightarrow> l);
          (results, w') = process_all t h up includeCompetitors country ids w
      in (JObj
            [(''total_apps'', JNum (Fin (of_nat (length ids)))),
             (''successful'',
                JNum (Fin (of_nat (length (filter (\<lambda>r. truthy (get_prop r ''success'')) results))))),
             (''failed'',
                JNum (Fin (of_nat (length (filter (\<lambda>r. \<not> truthy (get_prop r ''success'')) results))))),
             (''apps'', JArr results)],
          w'))"

definition sensor_tower_ios_revenue ::
  "host \<Rightarrow> upstream \<Rightarrow> int one_or_many \<Rightarrow> bool \<Rightarrow> string option \<Rightarrow> world \<Rightarrow> jsval \<times> world" where
  "sensor_tower_ios_revenue = revenue_tool ios_tool"

definition sensor_tower_android_revenue ::
  "host \<Rightarrow> upstream \<Rightarrow> string one_or_many \<Rightarrow> bool \<Rightarrow> string option \<Rightarrow> world \<Rightarrow> jsval \<times> world" where
  "sensor_tower_android_revenue = revenue_tool android_tool"

section \<open>The shapes of the results\<close>

text \<open>
  Values the properties below are stated with. \<open>a || b\<close> on two values:
\<close>

definition js_or :: "jsval \<Rightarrow> jsval \<Rightarrow> jsval" where
  "js_or a b = (if truthy a then a else b)"

text \<open>What the callback of \<open>top_competitors\<close> makes of an app that is neither null nor undefined.\<close>

definition reduced :: "jsval \<Rightarrow> jsval" where
  "reduced app =
     JObj [(''name'', js_or (get_prop app ''name'') (get_prop app ''title'')),
           (''rating'', js_or (get_prop app ''rating'') (get_prop app ''score'')),
           (''price'',
              js_or (js_or (opt (get_prop app ''price'') ''string_value'') (get_prop app ''priceText''))
                (JStr ''Free''))]"

text \<open>
  The object \<open>essential\<close> when nothing throws, given the values of \<open>revenue_formatted\<close>,
  \<open>top_countries\<close> and \<open>top_competitors\<close> (the three property values that can throw).
\<close>

definition essential_record ::
  "jsval \<Rightarrow> string \<Rightarrow> jsval \<Rightarrow> string \<Rightarrow> jsval \<Rightarrow> jsval \<Rightarrow> jsval" where
  "essential_record rawData platform identifier formatted countries competitors =
     JObj
       [(''app_info'',
           JObj
             [(''id'',
                 if platform = ''ios'' then get_prop rawData ''app_id''
                 else js_or (get_prop rawData ''package_name'') identifier),
              (''name'', js_or (get_prop rawData ''name'') (get_prop rawData ''title'')),
              (''publisher'',
                 js_or (get_prop rawData ''publisher_name'') (get_prop rawData ''developer'')),
              (''platform'', JStr platform),
              (''category'',
                 js_or (opt (opt (get_prop rawData ''categories'') ''0'') ''name'') (JStr ''Unknown'')),
              (''content_rating'', get_prop rawData ''content_rating''),
              (''current_version'', get_prop rawData ''current_version'')]),
        (''revenue_metrics'',
           JObj
             [(''last_month_revenue'',
                 js_or (opt (get_prop rawData ''worldwide_last_month_revenue'') ''value'')
                   (JNum (Fin 0))),
              (''last_month_downloads'',
                 js_or (opt (get_prop rawData ''worldwide_last_month_downloads'') ''value'')
                   (JNum (Fin 0))),
              (''revenue_currency'',
                 js_or (opt (get_prop rawData ''worldwide_last_month_revenue'') ''currency'')
                   (JStr ''USD'')),
              (''revenue_formatted'', JStr formatted)]),
        (''market_position'',
           JObj
             [(''overall_rating'', js_or (get_prop rawData ''rating'') (get_prop rawData ''score'')),
              (''rating_count'',
                 js_or (get_prop rawData ''rating_count'') (get_prop rawData ''reviews'')),
              (''top_countries'', countries),
              (''category_rankings'',
                 extractCategoryRankings (get_prop rawData ''category_rankings'') platform)]),
        (''monetization'',
           JObj
             [(''price'',
                 js_or
                   (js_or (opt (get_prop rawData ''price'') ''string_value'')
                      (get_prop rawData ''priceText''))
                   (JStr ''Free'')),
              (''has_in_app_purchases'',
                 js_or
                   (js_or (get_prop rawData ''has_in_app_purchases'') (get_prop rawData ''offersIAP''))
                   (JBool False)),
              (''top_iap_prices'',
                 extractTopIAPPrices (get_prop rawData ''top_in_app_purchases''))]),
        (''competitive_analysis'',
           JObj
             [(''related_apps_count'',
                 js_or (opt (get_prop rawData ''related_apps'') ''length'') (JNum (Fin 0))),
              (''top_competitors'', competitors)])]"

text \<open>The object the \<open>catch\<close> block of \<open>extractEssentialRevenueData\<close> returns for a truthy payload.\<close>

definition degraded :: "js_error \<Rightarrow> jsval" where
  "degraded e =
     JObj [(''error'', JStr (''Failed to extract data: '' @ message e)),
           (''raw_data_available'', JBool True)]"

text \<open>
  "To one decimal": the decimal numeral of the number of tenths nearest to \<open>x \<ge> 0\<close> (the
  larger of two), with a point before the last digit.
\<close>

definition one_decimal :: "rat \<Rightarrow> string" where
  "one_decimal x =
     (let n = nat \<lfloor>x * 10 + 1 / 2\<rfloor> in dec (n div 10) @ ''.'' @ [digit_char (n mod 10)])"

text \<open>The two results a loop iteration pushes.\<close>

definition success_item :: "'id tool \<Rightarrow> 'id \<Rightarrow> jsval \<Rightarrow> jsval" where
  "success_item t appId d =
     JObj [(id_field t, as_value t appId), (''success'', JBool True), (''data'', d)]"

definition failure_item :: "'id tool \<Rightarrow> 'id \<Rightarrow> string \<Rightarrow> jsval" where
  "failure_item t appId m =
     JObj [(id_field t, as_value t appId), (''success'', JBool False), (''error'', JStr m)]"

section \<open>Sample worlds and upstreams\<close>

text \<open>The cache at process start: \<open>new Map()\<close>.\<close>

definition empty_world :: world where
  "empty_world = \<lparr>cache = Map.empty, clock = 0, sent = []\<rparr>"

text \<open>A world whose cache holds one entry, stored at 1000, read at \<open>now\<close>.\<close>

definition cached_world :: "int \<Rightarrow> world" where
  "cached_world now =
     \<lparr>cache = [''ios_1'' \<mapsto> \<lparr>data = JStr ''old'', timestamp = 1000\<rparr>], clock = now, sent = []\<rparr>"

text \<open>An upstream that answers every request with 200 and the body \<open>"new"\<close>, after 25 ms.\<close>

definition up_new :: upstream where
  "up_new = (\<lambda>n url. (Response 200 ''OK'' (Parsed (JStr ''new'')), 25))"

text \<open>An upstream that answers every request with the given status and status text.\<close>

definition up_status :: "nat \<Rightarrow> string \<Rightarrow> upstream" where
  "up_status st stext = (\<lambda>n url. (Response st stext (Parsed JNull), 10))"

text \<open>
  An upstream that answers 200 with the plain text \<open>Rate limit exceeded\<close> as body:
  \<open>response.json()\<close> rejects with the SyntaxError of \<open>JSON.parse\<close>, whose message quotes
  the body (as V8 words it).
\<close>

definition garbled_error :: js_error where
  "garbled_error =
     JsError ''SyntaxError''
       (''Unexpected token '' @ [CHR 0x27] @ ''R'' @ [CHR 0x27] @ '', '' @ [CHR 0x22]
        @ ''Rate limit exceeded'' @ [CHR 0x22] @ '' is not valid JSON'')"

definition up_garbled :: upstream where
  "up_garbled = (\<lambda>n url. (Response 200 ''OK'' (Unparseable garbled_error), 10))"

text \<open>The region a call uses: none when \<open>country\<close> is null or the empty string.\<close>

definition region_of :: "string option \<Rightarrow> string option" where
  "region_of country = (case country of None \<Rightarrow> None | Some c \<Rightarrow> if c \<noteq> [] then Some c else None)"

text \<open>Ten related apps, three in-app purchase buckets, category rankings and a revenue payload.\<close>

definition ten_apps :: "jsval list" where
  "ten_apps =
     map (\<lambda>n. JObj [(''title'', JStr (dec n)), (''score'', JNum (Fin (of_nat n)))]) [1..<11]"

definition iap_sample :: jsval where
  "iap_sample =
     JObj [(''TR'', JArr [JObj [(''price'', JStr ''TRY 39.99'')]]),
           (''US'',
              JArr [JObj [(''price'', JStr ''$0.99'')], JObj [(''price'', JStr ''$4.99'')],
                    JObj [(''price'', JStr ''$0.99'')], JObj [(''price'', JStr ''$9.99'')]])]"

definition rankings_sample :: jsval where
  "rankings_sample =
     JObj [(''iphone'', JObj [(''top_free'', JObj [(''primary_categories'', JArr [JNum (Fin 3)])])]),
           (''phone'', JObj [(''top_free'', JObj [(''primary_categories'', JArr [JNum (Fin 7)])])])]"

definition revenue_payload :: jsval where
  "revenue_payload =
     JObj [(''name'', JStr ''Demo''),
           (''worldwide_last_month_revenue'',
              JObj [(''value'', JNum (Fin 2500000)), (''currency'', JStr ''USD'')])]"

text \<open>
  Payloads whose revenue value has no primitive value: the object \<open>{"toString": null}\<close>,
  and an array that holds it.
\<close>

definition opaque_amount :: jsval where
  "opaque_amount = JObj [(''toString'', JNull)]"

definition opaque_payload :: "jsval \<Rightarrow> jsval" where
  "opaque_payload amount = JObj [(''worldwide_last_month_revenue'', JObj [(''value'', amount)])]"

text \<open>An upstream that answers every request with 200 and the body \<open>null\<close>.\<close>

definition up_null :: upstream where
  "up_null = (\<lambda>n url. (Response 200 ''OK'' (Parsed JNull), 10))"

text \<open>An upstream whose second reply is a 500 and whose other replies carry the revenue payload.\<close>

definition up_second_fails :: upstream where
  "up_second_fails =
     (\<lambda>n url. if n = 1 then (Response 500 ''Internal Server Error'' (Parsed JNull), 10)
               else (Response 200 ''OK'' (Parsed revenue_payload), 10))"

text \<open>
  A \<open>toLocaleString\<close> after the en-US locale: the integer part grouped by thousands,
  at most three decimals (rounded half up on the exact value), trailing zeros dropped.
\<close>

definition pad3 :: "nat \<Rightarrow> string" where
  "pad3 m = replicate (3 - length (dec m)) CHR ''0'' @ dec m"

fun grouped :: "nat \<Rightarrow> string" where
  "grouped n = (if n < 1000 then dec n else grouped (n div 1000) @ '','' @ pad3 (n mod 1000))"

declare grouped.simps [simp del]

definition en_US_string :: "jsnum \<Rightarrow> string" where
  "en_US_string x =
     (case x of
        NaN \<Rightarrow> ''NaN''
      | PInf \<Rightarrow> [CHR 0xE2, CHR 0x88, CHR 0x9E]
      | NInf \<Rightarrow> [CHR ''-'', CHR 0xE2, CHR 0x88, CHR 0x9E]
      | NegZero \<Rightarrow> ''-0''
      | Fin r \<Rightarrow>
          (let n = \<lfloor>\<bar>r\<bar> * 1000 + 1 / 2\<rfloor>;
               frac = rev (dropWhile (\<lambda>c. c = CHR ''0'') (rev (pad3 (nat (n mod 1000)))))
           in (if r < 0 then ''-'' else []) @ grouped (nat (n div 1000))
              @ (if frac = [] then [] else ''.'' @ frac)))"

section \<open>Properties of decimal numerals\<close>

lemma dec_nonempty: "dec n \<noteq> []"
  by (subst dec.simps) simp

lemma digit_char_inj: "a < 10 \<Longrightarrow> b < 10 \<Longrightarrow> digit_char a = digit_char b \<Longrightarrow> a = b"
proof -
  assume a: "a < 10" and b: "b < 10" and e: "digit_char a = digit_char b"
  have d: "distinct ''0123456789''" by simp
  have l: "length ''0123456789'' = 10" by simp
  from d have "(''0123456789'' ! a = ''0123456789'' ! b) = (a = b)"
    by (rule nth_eq_iff_index_eq) (simp_all only: l a b)
  with e show "a = b" by (simp only: digit_char_def)
qed

lemma digit_char_in: "d < 10 \<Longrightarrow> digit_char d \<in> set ''0123456789''"
  unfolding digit_char_def by (rule nth_mem) simp

lemma dec_digits: "set (dec n) \<subseteq> set ''0123456789''"
proof (induction n rule: dec.induct)
  case (1 n)
  show ?case
  proof (cases "n < 10")
    case True
    then show ?thesis using digit_char_in [of n] by (subst dec.simps) simp
  next
    case False
    have "n mod 10 < 10" by simp
    then have "digit_char (n mod 10) \<in> set ''0123456789''" by (rule digit_char_in)
    with False 1 show ?thesis by (subst dec.simps) simp
  qed
qed

lemma dec_inj: "dec m = dec n \<Longrightarrow> m = n"
proof (induction m arbitrary: n rule: dec.induct)
  case (1 m)
  show ?case
  proof (cases "m < 10")
    case True
    then have m: "dec m = [digit_char m]" by (subst dec.simps) simp
    show ?thesis
    proof (cases "n < 10")
      case n: True
      then have "dec n = [digit_char n]" by (subst dec.simps) simp
      with m "1.prems" True n show ?thesis by (simp add: digit_char_inj)
    next
      case False
      then have "dec n = dec (n div 10) @ [digit_char (n mod 10)]" by (subst dec.simps) simp
      with m "1.prems" dec_nonempty [of "n div 10"] show ?thesis by simp
    qed
  next
    case False
    then have m: "dec m = dec (m div 10) @ [digit_char (m mod 10)]" by (subst dec.simps) simp
    show ?thesis
    proof (cases "n < 10")
      case True
      then have "dec n = [digit_char n]" by (subst dec.simps) simp
      with m "1.prems" dec_nonempty [of "m div 10"] show ?thesis by simp
    next
      case n: False
      then have "dec n = dec (n div 10) @ [digit_char (n mod 10)]" by (subst dec.simps) simp
      with m "1.prems" have a: "dec (m div 10) = dec (n div 10)"
        and b: "digit_char (m mod 10) = digit_char (n mod 10)" by simp_all
      from "1.IH" [OF False a] have "m div 10 = n div 10" .
      moreover from b have "m mod 10 = n mod 10" by (simp add: digit_char_inj)
      ultimately show ?thesis by (metis div_mult_mod_eq)
    qed
  qed
qed

lemma show_int_inj: "show_int i = show_int j \<Longrightarrow> i = j"
proof -
  assume e: "show_int i = show_int j"
  have nd: "CHR ''-'' \<notin> set (dec n)" for n using dec_digits [of n] by auto
  have hd: "hd (dec n) \<noteq> CHR ''-''" for n
    using nd [of n] dec_nonempty [of n] by (cases "dec n") auto
  show "i = j"
  proof (cases "i < 0")
    case True
    show ?thesis
    proof (cases "j < 0")
      case j: True
      with True e have "dec (nat (- i)) = dec (nat (- j))" by (simp add: show_int_def)
      then have "nat (- i) = nat (- j)" by (rule dec_inj)
      with True j show ?thesis by simp
    next
      case False
      with True e have "CHR ''-'' # dec (nat (- i)) = dec (nat j)" by (simp add: show_int_def)
      with hd [of "nat j"] show ?thesis by (metis list.sel(1))
    qed
  next
    case False
    show ?thesis
    proof (cases "j < 0")
      case True
      with False e have "dec (nat i) = CHR ''-'' # dec (nat (- j))" by (simp add: show_int_def)
      with hd [of "nat i"] show ?thesis by (metis list.sel(1))
    next
      case j: False
      with False e have "dec (nat i) = dec (nat j)" by (simp add: show_int_def)
      then have "nat i = nat j" by (rule dec_inj)
      with False j show ?thesis by simp
    qed
  qed
qed

lemma show_int_no_underscore: "CHR ''_'' \<notin> set (show_int i)"
  using dec_digits [of "nat i"] dec_digits [of "nat (- i)"] by (auto simp: show_int_def)

section \<open>Properties of the response cache\<close>

lemma rate_limit_message_includes:
  "str_includes (message rate_limit_error) ''Rate limit''"
  by (simp add: rate_limit_error_def)

lemma rethrow_rate_limit: "rethrow rate_limit_error = rate_limit_error"
  using rate_limit_message_includes by (simp add: rethrow_def)

lemma call_hit:
  "fresh w (finalCacheKey cacheKey country) = Some cached \<Longrightarrow>
   callSensorTowerAPI up endpoint cacheKey country w = (Inr (data cached), w)"
  by (simp add: callSensorTowerAPI_def)

lemma call_miss:
  "fresh w (finalCacheKey cacheKey country) = None \<Longrightarrow>
   up (length (sent w)) (finalEndpoint endpoint country) = (rep, dt) \<Longrightarrow>
   callSensorTowerAPI up endpoint cacheKey country w =
     (case read_reply rep of
        Inr d \<Rightarrow>
          (Inr d,
           w\<lparr>clock := clock w + int dt,
             sent := sent w @ [finalEndpoint endpoint country],
             cache := (cache w)(finalCacheKey cacheKey country \<mapsto>
                        \<lparr>data = d, timestamp = clock w + int dt\<rparr>)\<rparr>)
      | Inl e \<Rightarrow>
          (Inl (rethrow e),
           w\<lparr>clock := clock w + int dt, sent := sent w @ [finalEndpoint endpoint country]\<rparr>))"
  by (simp add: callSensorTowerAPI_def Let_def split: sum.splits)

lemma fresh_hit:
  "cache w k = Some e \<Longrightarrow> clock w - timestamp e < CACHE_DURATION \<Longrightarrow> fresh w k = Some e"
  by (simp add: fresh_def)

lemma fresh_stale:
  "cache w k = Some e \<Longrightarrow> timestamp e + CACHE_DURATION \<le> clock w \<Longrightarrow> fresh w k = None"
  by (simp add: fresh_def)

lemma read_reply_ok:
  "response_ok st \<Longrightarrow> read_reply (Response st txt (Parsed d)) = Inr d"
  by (auto simp: read_reply_def response_ok_def)

text \<open>
  C1. Let the cache hold an entry \<open>e\<close> under the final key of a call. If the call is made
  at a time \<open>t\<close> with \<open>t - timestamp e < CACHE_DURATION\<close> (30 days in milliseconds), it returns
  the stored payload and leaves the world as it is: no outbound request. If
  \<open>t \<ge> timestamp e + CACHE_DURATION\<close>, it issues exactly one request (to the final
  endpoint), and when that request succeeds (a status in 200..299 and a body that parses)
  it returns the new payload and stores it under the same key with the time read after
  the reply.
\<close>

theorem cache_ttl:
  assumes "cache w (finalCacheKey cacheKey country) = Some e"
  shows "(clock w - timestamp e < CACHE_DURATION \<longrightarrow>
            callSensorTowerAPI up endpoint cacheKey country w = (Inr (data e), w)) \<and>
         (timestamp e + CACHE_DURATION \<le> clock w \<longrightarrow>
            (\<forall>rep dt. up (length (sent w)) (finalEndpoint endpoint country) = (rep, dt) \<longrightarrow>
               (let (r, w') = callSensorTowerAPI up endpoint cacheKey country w in
                  sent w' = sent w @ [finalEndpoint endpoint country] \<and>
                  (\<forall>st txt d. rep = Response st txt (Parsed d) \<and> response_ok st \<longrightarrow>
                     r = Inr d \<and> clock w' = clock w + int dt \<and>
                     cache w' = (cache w)(finalCacheKey cacheKey country \<mapsto>
                                   \<lparr>data = d, timestamp = clock w'\<rparr>)))))"
proof (intro conjI impI allI)
  assume "clock w - timestamp e < CACHE_DURATION"
  with assms have "fresh w (finalCacheKey cacheKey country) = Some e"
    by (rule fresh_hit)
  then show "callSensorTowerAPI up endpoint cacheKey country w = (Inr (data e), w)"
    by (rule call_hit)
next
  fix rep dt
  assume stale: "timestamp e + CACHE_DURATION \<le> clock w"
    and up: "up (length (sent w)) (finalEndpoint endpoint country) = (rep, dt)"
  from assms stale have "fresh w (finalCacheKey cacheKey country) = None"
    by (rule fresh_stale)
  then have miss: "callSensorTowerAPI up endpoint cacheKey country w =
     (case read_reply rep of
        Inr d \<Rightarrow>
          (Inr d,
           w\<lparr>clock := clock w + int dt,
             sent := sent w @ [finalEndpoint endpoint country],
             cache := (cache w)(finalCacheKey cacheKey country \<mapsto>
                        \<lparr>data = d, timestamp = clock w + int dt\<rparr>)\<rparr>)
      | Inl e \<Rightarrow>
          (Inl (rethrow e),
           w\<lparr>clock := clock w + int dt, sent := sent w @ [finalEndpoint endpoint country]\<rparr>))"
    using up by (rule call_miss)
  show "let (r, w') = callSensorTowerAPI up endpoint cacheKey country w in
          sent w' = sent w @ [finalEndpoint endpoint country] \<and>
          (\<forall>st txt d. rep = Response st txt (Parsed d) \<and> response_ok st \<longrightarrow>
             r = Inr d \<and> clock w' = clock w + int dt \<and>
             cache w' = (cache w)(finalCacheKey cacheKey country \<mapsto>
                           \<lparr>data = d, timestamp = clock w'\<rparr>))"
    unfolding miss by (auto simp: read_reply_ok split: sum.splits)
qed

theorem cache_ttl_witness:
  "callSensorTowerAPI up_new ''u'' ''ios_1'' None (cached_world 2000) =
     (Inr (JStr ''old''), cached_world 2000) \<and>
   callSensorTowerAPI up_new ''u'' ''ios_1'' None (cached_world 2592001000) =
     (Inr (JStr ''new''),
      \<lparr>cache = [''ios_1'' \<mapsto> \<lparr>data = JStr ''new'', timestamp = 2592001025\<rparr>],
       clock = 2592001025, sent = [''u'']\<rparr>)"
proof -
  have e: "cache (cached_world now) (finalCacheKey ''ios_1'' None)
             = Some \<lparr>data = JStr ''old'', timestamp = 1000\<rparr>" for now
    by (simp add: cached_world_def finalCacheKey_def)
  have u: "up_new (length (sent (cached_world 2592001000))) (finalEndpoint ''u'' None)
             = (Response 200 ''OK'' (Parsed (JStr ''new'')), 25)"
    by (simp add: up_new_def)
  have 1: "callSensorTowerAPI up_new ''u'' ''ios_1'' None (cached_world 2000) =
     (Inr (JStr ''old''), cached_world 2000)"
    using cache_ttl [OF e, of 2000 up_new "''u''"]
    by (simp add: cached_world_def CACHE_DURATION_def)
  have 2: "callSensorTowerAPI up_new ''u'' ''ios_1'' None (cached_world 2592001000) =
     (Inr (JStr ''new''),
      \<lparr>cache = [''ios_1'' \<mapsto> \<lparr>data = JStr ''new'', timestamp = 2592001025\<rparr>],
       clock = 2592001025, sent = [''u'']\<rparr>)"
    using cache_ttl [OF e, of 2592001000 up_new "''u''"] u
    apply (simp add: CACHE_DURATION_def response_ok_def split: prod.splits)
    apply (simp add: cached_world_def finalCacheKey_def finalEndpoint_def)
    done
  show ?thesis using 1 2 by simp
qed

lemma fresh_empty_world: "fresh empty_world k = None"
  by (simp add: fresh_def empty_world_def)

lemma call_miss_fst:
  "fresh w (finalCacheKey cacheKey country) = None \<Longrightarrow>
   fst (callSensorTowerAPI up endpoint cacheKey country w) =
     (case read_reply (fst (up (length (sent w)) (finalEndpoint endpoint country))) of
        Inr d \<Rightarrow> Inr d
      | Inl e \<Rightarrow> Inl (rethrow e))"
  by (simp add: callSensorTowerAPI_def Let_def split: sum.splits prod.splits)

lemma includes_skip:
  "c \<notin> set xs \<Longrightarrow> str_includes (xs @ ys) (c # p) = str_includes ys (c # p)"
proof (induction xs)
  case Nil
  then show ?case by simp
next
  case (Cons x xs)
  then show ?case by (cases ys) auto
qed

lemma http_message_includes:
  "str_includes (''HTTP '' @ dec st @ '': '' @ stext) ''Rate limit'' = str_includes stext ''Rate limit''"
proof -
  have "CHR ''R'' \<notin> set (''HTTP '' @ dec st @ '': '')"
    using dec_digits [of st] by auto
  from includes_skip [OF this, of stext "''ate limit''"] show ?thesis by simp
qed

text \<open>
  C4. When a request is made and the upstream answers 429, the call fails with the error
  thrown at the 429 check (message \<open>Rate limit exceeded. Please try again later.\<close>) as it
  is: the \<open>catch\<close> block rethrows it unwrapped. For any other failing status the call fails
  with an error whose message differs from that one.
\<close>

theorem rate_limit_distinct:
  assumes "fresh w (finalCacheKey cacheKey country) = None"
    and "up (length (sent w)) (finalEndpoint endpoint country) = (Response st stext b, dt)"
  shows "message rate_limit_error = ''Rate limit exceeded. Please try again later.'' \<and>
         (st = 429 \<longrightarrow>
            fst (callSensorTowerAPI up endpoint cacheKey country w) = Inl rate_limit_error) \<and>
         (st \<noteq> 429 \<and> \<not> response_ok st \<longrightarrow>
            (\<exists>e. fst (callSensorTowerAPI up endpoint cacheKey country w) = Inl e \<and>
                 message e \<noteq> message rate_limit_error))"
proof -
  have r: "fst (callSensorTowerAPI up endpoint cacheKey country w) =
     (case read_reply (Response st stext b) of Inr d \<Rightarrow> Inr d | Inl e \<Rightarrow> Inl (rethrow e))"
    using assms by (simp add: call_miss_fst)
  have 1: "st = 429 \<Longrightarrow> fst (callSensorTowerAPI up endpoint cacheKey country w) = Inl rate_limit_error"
    unfolding r by (simp add: read_reply_def rethrow_rate_limit)
  have 2: "message (rethrow (JsError ''Error'' (''HTTP '' @ m))) \<noteq> message rate_limit_error" for m
    by (simp add: rethrow_def rate_limit_error_def)
  have 3: "st \<noteq> 429 \<Longrightarrow> \<not> response_ok st \<Longrightarrow>
        fst (callSensorTowerAPI up endpoint cacheKey country w) =
          Inl (rethrow (JsError ''Error'' (''HTTP '' @ dec st @ '': '' @ stext)))"
    unfolding r by (simp add: read_reply_def)
  show ?thesis using 1 2 3 by (auto simp: rate_limit_error_def)
qed

theorem rate_limit_distinct_witness:
  "fst (callSensorTowerAPI (up_status 429 ''Too Many Requests'') ''u'' ''ios_1'' None empty_world)
     = Inl (JsError ''Error'' ''Rate limit exceeded. Please try again later.'') \<and>
   (\<exists>e. fst (callSensorTowerAPI (up_status 500 ''Internal Server Error'') ''u'' ''ios_1'' None
             empty_world) = Inl e \<and>
        message e \<noteq> ''Rate limit exceeded. Please try again later.'')"
proof -
  from rate_limit_distinct [where w = empty_world and up = "up_status 429 ''Too Many Requests''"
      and endpoint = "''u''" and cacheKey = "''ios_1''" and country = None]
    rate_limit_distinct [where w = empty_world and up = "up_status 500 ''Internal Server Error''"
      and endpoint = "''u''" and cacheKey = "''ios_1''" and country = None]
  show ?thesis
    by (simp add: fresh_empty_world up_status_def rate_limit_error_def response_ok_def)
qed

text \<open>
  C7, as amended. When a request is made and the upstream answers a failing status other
  than 429, the call fails with an \<open>Error\<close> whose message is
  \<open>Failed to fetch data from Sensor Tower: HTTP <status>: <statusText>\<close>, unless the status
  text includes \<open>Rate limit\<close>: then the message is \<open>HTTP <status>: <statusText>\<close>, not
  wrapped. When \<open>fetch\<close> rejects or the body does not parse, with an error \<open>e\<close>, the call
  fails with \<open>Failed to fetch data from Sensor Tower: <message of e>\<close>, unless the message
  of \<open>e\<close> includes \<open>Rate limit\<close>: then \<open>e\<close> itself propagates.
\<close>

theorem upstream_error_wrapping:
  assumes "fresh w (finalCacheKey cacheKey country) = None"
    and "up (length (sent w)) (finalEndpoint endpoint country) = (rep, dt)"
  shows "(\<forall>st stext b. rep = Response st stext b \<and> st \<noteq> 429 \<and> \<not> response_ok st \<longrightarrow>
            fst (callSensorTowerAPI up endpoint cacheKey country w) =
              Inl (JsError ''Error''
                     ((if str_includes stext ''Rate limit'' then []
                       else ''Failed to fetch data from Sensor Tower: '')
                      @ ''HTTP '' @ dec st @ '': '' @ stext))) \<and>
         (\<forall>e. (rep = Rejected e \<or> (\<exists>st stext. rep = Response st stext (Unparseable e) \<and> response_ok st)) \<longrightarrow>
            fst (callSensorTowerAPI up endpoint cacheKey country w) =
              Inl (if str_includes (message e) ''Rate limit'' then e
                   else JsError ''Error'' (''Failed to fetch data from Sensor Tower: '' @ message e)))"
proof -
  have r: "fst (callSensorTowerAPI up endpoint cacheKey country w) =
     (case read_reply rep of Inr d \<Rightarrow> Inr d | Inl e \<Rightarrow> Inl (rethrow e))"
    using assms by (simp add: call_miss_fst)
  have 1: "fst (callSensorTowerAPI up endpoint cacheKey country w) =
              Inl (JsError ''Error''
                     ((if str_includes stext ''Rate limit'' then []
                       else ''Failed to fetch data from Sensor Tower: '')
                      @ ''HTTP '' @ dec st @ '': '' @ stext))"
    if "rep = Response st stext b" "st \<noteq> 429" "\<not> response_ok st" for st stext b
    unfolding r using that http_message_includes [of st stext]
    by (simp add: read_reply_def rethrow_def)
  have 2: "fst (callSensorTowerAPI up endpoint cacheKey country w) = Inl (rethrow e)"
    if "rep = Rejected e \<or> (\<exists>st stext. rep = Response st stext (Unparseable e) \<and> response_ok st)" for e
    unfolding r using that by (auto simp: read_reply_def response_ok_def)
  show ?thesis using 1 2 by (simp add: rethrow_def)
qed

theorem upstream_error_wrapping_witness:
  "fst (callSensorTowerAPI (up_status 500 ''Internal Server Error'') ''u'' ''ios_1'' None empty_world)
     = Inl (JsError ''Error''
              ''Failed to fetch data from Sensor Tower: HTTP 500: Internal Server Error'') \<and>
   fst (callSensorTowerAPI (up_status 503 ''Rate limit reached'') ''u'' ''ios_1'' None empty_world)
     = Inl (JsError ''Error'' ''HTTP 503: Rate limit reached'') \<and>
   fst (callSensorTowerAPI up_garbled ''u'' ''ios_1'' None empty_world) = Inl garbled_error \<and>
   fst (callSensorTowerAPI (\<lambda>n url. (Rejected (JsError ''TypeError'' ''fetch failed''), 10))
          ''u'' ''ios_1'' None empty_world)
     = Inl (JsError ''Error'' ''Failed to fetch data from Sensor Tower: fetch failed'')"
proof -
  have u: "up_status st stext (length (sent empty_world)) (finalEndpoint ''u'' None)
             = (Response st stext (Parsed JNull), 10)" for st stext
    by (simp add: up_status_def)
  have g: "up_garbled (length (sent empty_world)) (finalEndpoint ''u'' None)
             = (Response 200 ''OK'' (Unparseable garbled_error), 10)"
    by (simp add: up_garbled_def)
  have f: "(\<lambda>n url. (Rejected (JsError ''TypeError'' ''fetch failed''), 10))
             (length (sent empty_world)) (finalEndpoint ''u'' None)
             = (Rejected (JsError ''TypeError'' ''fetch failed''), 10)"
    by simp
  have d500: "dec 500 = ''500''" and d503: "dec 503 = ''503''" by code_simp+
  have i: "str_includes (message garbled_error) ''Rate limit''"
    by (simp add: garbled_error_def)
  from upstream_error_wrapping [where w = empty_world and up = "up_status 500 ''Internal Server Error''"
      and endpoint = "''u''" and cacheKey = "''ios_1''" and country = None, OF fresh_empty_world u]
    upstream_error_wrapping [where w = empty_world and up = "up_status 503 ''Rate limit reached''"
      and endpoint = "''u''" and cacheKey = "''ios_1''" and country = None, OF fresh_empty_world u]
    upstream_error_wrapping [where w = empty_world and up = up_garbled
      and endpoint = "''u''" and cacheKey = "''ios_1''" and country = None, OF fresh_empty_world g]
    upstream_error_wrapping [where w = empty_world
      and up = "\<lambda>n url. (Rejected (JsError ''TypeError'' ''fetch failed''), 10)"
      and endpoint = "''u''" and cacheKey = "''ios_1''" and country = None, OF fresh_empty_world f]
    i
  show ?thesis by (simp add: response_ok_def d500 d503)
qed

text \<open>
  C7 as stated fails: a body that does not parse, with a parse error whose message quotes
  the words \<open>Rate limit\<close>, propagates as the SyntaxError it is, without the wrapper.
\<close>

theorem transport_failure_not_wrapped:
  "fst (callSensorTowerAPI up_garbled ''u'' ''ios_1'' None empty_world) = Inl garbled_error \<and>
   garbled_error \<noteq>
     JsError ''Error'' (''Failed to fetch data from Sensor Tower: '' @ message garbled_error) \<and>
   take 40 (message garbled_error) \<noteq> ''Failed to fetch data from Sensor Tower: ''"
proof -
  have g: "up_garbled (length (sent empty_world)) (finalEndpoint ''u'' None)
             = (Response 200 ''OK'' (Unparseable garbled_error), 10)"
    by (simp add: up_garbled_def)
  have i: "str_includes (message garbled_error) ''Rate limit''"
    by (simp add: garbled_error_def)
  have "fst (callSensorTowerAPI up_garbled ''u'' ''ios_1'' None empty_world) = Inl garbled_error"
    using i g by (simp add: call_miss_fst fresh_empty_world read_reply_def response_ok_def rethrow_def)
  then show ?thesis by (simp add: garbled_error_def)
qed

text \<open>
  C10. A call leaves the cache entry of every key other than its final key as it was, and a
  call that throws leaves the whole cache map as it was.
\<close>

theorem call_frame:
  "(\<forall>k. k \<noteq> finalCacheKey cacheKey country \<longrightarrow>
        cache (snd (callSensorTowerAPI up endpoint cacheKey country w)) k = cache w k) \<and>
   (\<forall>e. fst (callSensorTowerAPI up endpoint cacheKey country w) = Inl e \<longrightarrow>
        cache (snd (callSensorTowerAPI up endpoint cacheKey country w)) = cache w)"
proof (cases "fresh w (finalCacheKey cacheKey country)")
  case (Some cached)
  then show ?thesis by (simp add: call_hit)
next
  case None
  obtain rep dt where u: "up (length (sent w)) (finalEndpoint endpoint country) = (rep, dt)"
    by (cases "up (length (sent w)) (finalEndpoint endpoint country)")
  from None u show ?thesis
    by (cases "read_reply rep") (simp_all add: callSensorTowerAPI_def)
qed

theorem call_frame_witness:
  "cache (snd (callSensorTowerAPI up_new ''u'' ''ios_2'' None (cached_world 2000))) ''ios_1''
     = Some \<lparr>data = JStr ''old'', timestamp = 1000\<rparr> \<and>
   cache (snd (callSensorTowerAPI (up_status 500 ''Internal Server Error'') ''u'' ''ios_1'' None
                 (cached_world 2592001000)))
     = [''ios_1'' \<mapsto> \<lparr>data = JStr ''old'', timestamp = 1000\<rparr>]"
proof -
  have k: "''ios_1'' \<noteq> finalCacheKey ''ios_2'' None"
    by (simp add: finalCacheKey_def)
  have s: "fresh (cached_world 2592001000) (finalCacheKey ''ios_1'' None) = None"
    by (simp add: fresh_def cached_world_def finalCacheKey_def CACHE_DURATION_def)
  have u: "up_status 500 ''Internal Server Error'' (length (sent (cached_world 2592001000)))
             (finalEndpoint ''u'' None) = (Response 500 ''Internal Server Error'' (Parsed JNull), 10)"
    by (simp add: up_status_def)
  have f: "fst (callSensorTowerAPI (up_status 500 ''Internal Server Error'') ''u'' ''ios_1'' None
                 (cached_world 2592001000))
            = Inl (rethrow (JsError ''Error'' (''HTTP '' @ dec 500 @ '': '' @ ''Internal Server Error'')))"
    using s u by (simp add: call_miss_fst read_reply_def response_ok_def)
  from call_frame [of "''ios_2''" None up_new "''u''" "cached_world 2000"] k
    call_frame [of "''ios_1''" None "up_status 500 ''Internal Server Error''" "''u''" "cached_world 2592001000"] f
  show ?thesis by (simp add: cached_world_def)
qed

text \<open>A key whose identifier part has no underscore splits at its first underscore.\<close>

lemma split_at_underscore:
  "CHR ''_'' \<notin> set xs \<Longrightarrow> CHR ''_'' \<notin> set ys \<Longrightarrow>
   (t1 = [] \<or> hd t1 = CHR ''_'') \<Longrightarrow> (t2 = [] \<or> hd t2 = CHR ''_'') \<Longrightarrow>
   xs @ t1 = ys @ t2 \<Longrightarrow> xs = ys \<and> t1 = t2"
proof (induction xs arbitrary: ys)
  case Nil
  then show ?case by (cases ys) auto
next
  case (Cons x xs)
  then show ?case by (cases ys) auto
qed

lemma finalCacheKey_tail:
  "finalCacheKey base country = base @ (case region_of country of None \<Rightarrow> [] | Some r \<Rightarrow> ''_'' @ r)"
  by (simp add: finalCacheKey_def region_of_def split: option.splits)

lemma finalCacheKey_inj:
  assumes "CHR ''_'' \<notin> set a" "CHR ''_'' \<notin> set b"
    and "finalCacheKey (p @ a) c1 = finalCacheKey (p @ b) c2"
  shows "a = b \<and> region_of c1 = region_of c2"
proof -
  let ?t = "\<lambda>c. case region_of c of None \<Rightarrow> [] | Some r \<Rightarrow> ''_'' @ r"
  from assms(3) have "a @ ?t c1 = b @ ?t c2" by (simp add: finalCacheKey_tail)
  moreover have "?t c = [] \<or> hd (?t c) = CHR ''_''" for c by (simp split: option.splits)
  ultimately have "a = b \<and> ?t c1 = ?t c2"
    using assms(1,2) split_at_underscore by blast
  then show ?thesis by (auto split: option.splits)
qed

text \<open>A key whose region has no underscore splits at its last underscore.\<close>

lemma split_at_last_underscore:
  assumes "CHR ''_'' \<notin> set r1" "CHR ''_'' \<notin> set r2"
    and "a @ ''_'' @ r1 = b @ ''_'' @ r2"
  shows "a = b \<and> r1 = r2"
proof -
  from assms(3) have "rev (a @ ''_'' @ r1) = rev (b @ ''_'' @ r2)"
    by (rule arg_cong)
  then have "rev r1 @ (CHR ''_'' # rev a) = rev r2 @ (CHR ''_'' # rev b)"
    by simp
  with assms(1,2) have "rev r1 = rev r2 \<and> CHR ''_'' # rev a = CHR ''_'' # rev b"
    by (intro split_at_underscore) simp_all
  then show ?thesis by simp
qed

text \<open>
  C6 as stated fails: two distinct Android requests, one for the package
  \<open>com.example_US\<close> without a country and one for \<open>com.example\<close> with the country \<open>US\<close>,
  have the same final cache key. So, once the first has been fetched, a call for the
  second returns the first one's payload from the cache, with no request sent (here the
  upstream would have answered 500).
\<close>

theorem android_keys_alias:
  "(''com.example_US'', None) \<noteq> (''com.example'', Some ''US'') \<and>
   finalCacheKey (cacheKey_of android_tool ''com.example_US'') None =
   finalCacheKey (cacheKey_of android_tool ''com.example'') (Some ''US'') \<and>
   callSensorTowerAPI (up_status 500 ''Internal Server Error'')
     (endpoint_of android_tool ''com.example'') (cacheKey_of android_tool ''com.example'')
     (Some ''US'')
     (snd (callSensorTowerAPI up_new
             (endpoint_of android_tool ''com.example_US'')
             (cacheKey_of android_tool ''com.example_US'') None empty_world))
   = (Inr (JStr ''new''),
      snd (callSensorTowerAPI up_new
             (endpoint_of android_tool ''com.example_US'')
             (cacheKey_of android_tool ''com.example_US'') None empty_world))"
proof -
  have k: "finalCacheKey (cacheKey_of android_tool ''com.example_US'') None =
           finalCacheKey (cacheKey_of android_tool ''com.example'') (Some ''US'')"
    by (simp add: finalCacheKey_def android_tool_def)
  have 1: "callSensorTowerAPI up_new
             (endpoint_of android_tool ''com.example_US'')
             (cacheKey_of android_tool ''com.example_US'') None empty_world
           = (Inr (JStr ''new''),
              \<lparr>cache = [finalCacheKey (cacheKey_of android_tool ''com.example_US'') None
                           \<mapsto> \<lparr>data = JStr ''new'', timestamp = 25\<rparr>],
               clock = 25,
               sent = [finalEndpoint (endpoint_of android_tool ''com.example_US'') None]\<rparr>)"
    by (simp add: callSensorTowerAPI_def fresh_def up_new_def read_reply_def
        response_ok_def empty_world_def Let_def)
  have 2: "fresh \<lparr>cache = [finalCacheKey (cacheKey_of android_tool ''com.example_US'') None
                           \<mapsto> \<lparr>data = JStr ''new'', timestamp = 25\<rparr>],
               clock = 25, sent = s\<rparr>
             (finalCacheKey (cacheKey_of android_tool ''com.example'') (Some ''US''))
           = Some \<lparr>data = JStr ''new'', timestamp = 25\<rparr>" for s
    unfolding k [symmetric] by (simp add: fresh_def CACHE_DURATION_def)
  show ?thesis
    unfolding 1 snd_conv using k call_hit [OF 2] by simp
qed

text \<open>
  C6, as amended. The final key is the base key when no region is given (\<open>country\<close> null or
  empty), and the base key, an underscore and the region otherwise. For one base key, calls
  with different regions (or with and without one) have different final keys. An iOS key
  never equals an Android key. Two iOS requests with the same final key have the same app
  ID and region; two Android requests with the same final key have the same package name
  and region provided neither package name contains an underscore, or neither request
  has a region, or both have a region and neither region contains an underscore.
\<close>

theorem cache_key_composition:
  "finalCacheKey base country =
     (case region_of country of None \<Rightarrow> base | Some r \<Rightarrow> base @ ''_'' @ r) \<and>
   (region_of c1 \<noteq> region_of c2 \<longrightarrow> finalCacheKey base c1 \<noteq> finalCacheKey base c2) \<and>
   finalCacheKey (cacheKey_of ios_tool appId) c1 \<noteq> finalCacheKey (cacheKey_of android_tool packageName) c2 \<and>
   (finalCacheKey (cacheKey_of ios_tool i) c1 = finalCacheKey (cacheKey_of ios_tool j) c2 \<longrightarrow>
      i = j \<and> region_of c1 = region_of c2) \<and>
   (CHR ''_'' \<notin> set p \<and> CHR ''_'' \<notin> set q \<and>
    finalCacheKey (cacheKey_of android_tool p) c1 = finalCacheKey (cacheKey_of android_tool q) c2 \<longrightarrow>
      p = q \<and> region_of c1 = region_of c2) \<and>
   (region_of c1 = None \<and> region_of c2 = None \<and>
    finalCacheKey (cacheKey_of android_tool p) c1 = finalCacheKey (cacheKey_of android_tool q) c2 \<longrightarrow>
      p = q) \<and>
   (region_of c1 = Some r1 \<and> region_of c2 = Some r2 \<and>
    CHR ''_'' \<notin> set r1 \<and> CHR ''_'' \<notin> set r2 \<and>
    finalCacheKey (cacheKey_of android_tool p) c1 = finalCacheKey (cacheKey_of android_tool q) c2 \<longrightarrow>
      p = q \<and> r1 = r2)"
proof (intro conjI impI)
  show "p = q"
    if "region_of c1 = None \<and> region_of c2 = None \<and>
        finalCacheKey (cacheKey_of android_tool p) c1 = finalCacheKey (cacheKey_of android_tool q) c2"
    using that by (auto simp: finalCacheKey_tail android_tool_def)
  show "p = q" "r1 = r2"
    if "region_of c1 = Some r1 \<and> region_of c2 = Some r2 \<and>
        CHR ''_'' \<notin> set r1 \<and> CHR ''_'' \<notin> set r2 \<and>
        finalCacheKey (cacheKey_of android_tool p) c1 = finalCacheKey (cacheKey_of android_tool q) c2"
  proof -
    from that have "p @ ''_'' @ r1 = q @ ''_'' @ r2"
      by (auto simp: finalCacheKey_tail android_tool_def)
    with that have "p = q \<and> r1 = r2"
      by (intro split_at_last_underscore) simp_all
    then show "p = q" "r1 = r2" by simp_all
  qed
  show "finalCacheKey base country =
     (case region_of country of None \<Rightarrow> base | Some r \<Rightarrow> base @ ''_'' @ r)"
    by (simp add: finalCacheKey_tail split: option.splits)
  show "finalCacheKey base c1 \<noteq> finalCacheKey base c2" if "region_of c1 \<noteq> region_of c2"
    using that by (cases "region_of c1"; cases "region_of c2"; simp add: finalCacheKey_tail)
  show "finalCacheKey (cacheKey_of ios_tool appId) c1 \<noteq>
        finalCacheKey (cacheKey_of android_tool packageName) c2"
    by (simp add: finalCacheKey_tail ios_tool_def android_tool_def)
  show "i = j" "region_of c1 = region_of c2"
    if "finalCacheKey (cacheKey_of ios_tool i) c1 = finalCacheKey (cacheKey_of ios_tool j) c2"
    using finalCacheKey_inj [of "show_int i" "show_int j" "''ios_''" c1 c2] that
      show_int_no_underscore show_int_inj by (auto simp: ios_tool_def)
  show "p = q" "region_of c1 = region_of c2"
    if "CHR ''_'' \<notin> set p \<and> CHR ''_'' \<notin> set q \<and>
        finalCacheKey (cacheKey_of android_tool p) c1 = finalCacheKey (cacheKey_of android_tool q) c2"
    using finalCacheKey_inj [of p q "''android_''" c1 c2] that by (auto simp: android_tool_def)
qed

theorem cache_key_composition_witness:
  "finalCacheKey ''ios_1'' (Some ''US'') = ''ios_1_US'' \<and>
   finalCacheKey ''ios_1'' (Some ''US'') \<noteq> finalCacheKey ''ios_1'' (Some ''TR'') \<and>
   finalCacheKey (cacheKey_of ios_tool 1) (Some ''US'')
     \<noteq> finalCacheKey (cacheKey_of android_tool ''com.a'') (Some ''TR'') \<and>
   finalCacheKey (cacheKey_of ios_tool 1) (Some ''US'')
     \<noteq> finalCacheKey (cacheKey_of ios_tool 12) (Some ''TR'') \<and>
   finalCacheKey (cacheKey_of android_tool ''com.a'') (Some ''US'')
     \<noteq> finalCacheKey (cacheKey_of android_tool ''com.b'') (Some ''TR'') \<and>
   finalCacheKey (cacheKey_of android_tool ''com.a_b'') None
     \<noteq> finalCacheKey (cacheKey_of android_tool ''com.a'') None \<and>
   finalCacheKey (cacheKey_of android_tool ''com.a_b'') (Some ''US'')
     \<noteq> finalCacheKey (cacheKey_of android_tool ''com.a'') (Some ''US'')"
proof -
  have r: "region_of (Some ''US'') = Some ''US''" "region_of (Some ''TR'') = Some ''TR''"
    by (simp_all add: region_of_def)
  have u: "CHR ''_'' \<notin> set ''com.a''" "CHR ''_'' \<notin> set ''com.b''"
    by simp_all
  have n: "region_of None = None"
    by (simp add: region_of_def)
  have 1: "finalCacheKey ''ios_1'' (Some ''US'') = ''ios_1_US'' \<and>
     finalCacheKey ''ios_1'' (Some ''US'') \<noteq> finalCacheKey ''ios_1'' (Some ''TR'') \<and>
     finalCacheKey (cacheKey_of ios_tool 1) (Some ''US'')
       \<noteq> finalCacheKey (cacheKey_of android_tool ''com.a'') (Some ''TR'') \<and>
     finalCacheKey (cacheKey_of ios_tool 1) (Some ''US'')
       \<noteq> finalCacheKey (cacheKey_of ios_tool 12) (Some ''TR'') \<and>
     finalCacheKey (cacheKey_of android_tool ''com.a'') (Some ''US'')
       \<noteq> finalCacheKey (cacheKey_of android_tool ''com.b'') (Some ''TR'')"
    using cache_key_composition [where base = "''ios_1''" and country = "Some ''US''"
      and ?c1.0 = "Some ''US''" and ?c2.0 = "Some ''TR''" and appId = 1
      and packageName = "''com.a''" and i = 1 and j = 12 and p = "''com.a''" and q = "''com.b''"
      and ?r1.0 = "''US''" and ?r2.0 = "''TR''"]
      u by (auto simp: r)
  have 2: "finalCacheKey (cacheKey_of android_tool ''com.a_b'') None
       \<noteq> finalCacheKey (cacheKey_of android_tool ''com.a'') None"
    using cache_key_composition [where ?c1.0 = None and ?c2.0 = None and p = "''com.a_b''"
      and q = "''com.a''"]
    by (auto simp: n)
  have 3: "finalCacheKey (cacheKey_of android_tool ''com.a_b'') (Some ''US'')
       \<noteq> finalCacheKey (cacheKey_of android_tool ''com.a'') (Some ''US'')"
    using cache_key_composition [where ?c1.0 = "Some ''US''" and ?c2.0 = "Some ''US''"
      and p = "''com.a_b''" and q = "''com.a''" and ?r1.0 = "''US''" and ?r2.0 = "''US''"]
    by (auto simp: r)
  from 1 2 3 show ?thesis by blast
qed

section \<open>Properties of the extractor\<close>

lemma andThen_Inr [simp]: "andThen (Inr v) f = f v"
  by (simp add: andThen_def)

lemma andThen_Inl [simp]: "andThen (Inl e) f = Inl e"
  by (simp add: andThen_def)

lemma truthy_not_nullish: "truthy v \<Longrightarrow> \<not> nullish v"
  by (cases v) simp_all

lemma dot_defined: "\<not> nullish v \<Longrightarrow> dot v k = Inr (get_prop v k)"
  by (simp add: dot_def)

lemma or_else_Inr [simp]: "or_else (Inr a) b = (if truthy a then Inr a else b)"
  by (simp add: or_else_def)

lemma or_else_Inr_Inr: "or_else (Inr a) (Inr b) = Inr (if truthy a then a else b)"
  by (simp add: or_else_def)

lemma object_Inr3:
  "object [(k1, Inr v1), (k2, Inr v2), (k3, Inr v3)] = Inr (JObj [(k1, v1), (k2, v2), (k3, v3)])"
  by (simp add: object_def)

lemma or_else_Inl [simp]: "or_else (Inl e) b = Inl e"
  by (simp add: or_else_def)

lemma chain_Inl [simp]: "chain (Inl e) k = Inl e"
  by (simp add: chain_def)

lemma object_Cons_Inl [simp]: "object ((k, Inl e) # rest) = Inl e"
  by (simp add: object_def)

lemma chain_Inr [simp]: "chain (Inr v) k = Inr (opt v k)"
  by (simp add: chain_def)

lemma object_Nil [simp]: "object [] = Inr (JObj [])"
  by (simp add: object_def)

text \<open>
  C9 as stated fails at the top level: when the rankings value itself is absent, the result
  is the empty object, so \<open>top_free\<close> is undefined (a missing key), not null.
\<close>

theorem rankings_absent_not_null:
  "extractCategoryRankings JUndefined ''ios'' = JObj [] \<and>
   get_prop (extractCategoryRankings JUndefined ''ios'') ''top_free'' \<noteq> JNull"
  by (simp add: extractCategoryRankings_def)

text \<open>
  C9, as amended. When the rankings value is absent (falsy), the result is the empty
  object. Otherwise the device bucket is read by platform (\<open>iphone\<close> for \<open>ios\<close>, \<open>phone\<close>
  for any other platform); when that bucket is absent (falsy) the rankings value itself
  takes its place; and each of \<open>top_free\<close>, \<open>top_grossing\<close>, \<open>top_paid\<close> is the first
  primary category of that chart in the bucket, or null when the chart, its
  \<open>primary_categories\<close> or their first entry is absent (or falsy). No input raises an
  error: the \<open>catch\<close> block is never entered.
\<close>

theorem category_rankings_resolution:
  "(\<not> truthy rankings \<longrightarrow> extractCategoryRankings rankings platform = JObj []) \<and>
   (truthy rankings \<longrightarrow>
      (let bucket = get_prop rankings (if platform = ''ios'' then ''iphone'' else ''phone'');
           deviceRankings = (if truthy bucket then bucket else rankings);
           entry = (\<lambda>chart.
             let v = opt (opt (opt deviceRankings chart) ''primary_categories'') ''0''
             in if truthy v then v else JNull)
       in extractCategoryRankings rankings platform =
            JObj [(''top_free'', entry ''top_free''),
                  (''top_grossing'', entry ''top_grossing''),
                  (''top_paid'', entry ''top_paid'')]))"
proof (cases "truthy rankings")
  case False
  then show ?thesis by (simp add: extractCategoryRankings_def)
next
  case True
  then have d: "dot rankings k = Inr (get_prop rankings k)" for k
    by (simp add: dot_defined truthy_not_nullish)
  have o: "or_else (Inr (get_prop rankings k)) (Inr rankings) =
             Inr (if truthy (get_prop rankings k) then get_prop rankings k else rankings)" for k
    by (rule or_else_Inr_Inr)
  show ?thesis
    unfolding extractCategoryRankings_def Let_def d o andThen_Inr or_else_Inr_Inr object_Inr3
    using True by (simp only: if_True if_False not_True_eq_False sum.case simp_thms)
qed

lemma or_else_js_or: "or_else (Inr a) (Inr b) = Inr (js_or a b)"
  by (simp add: js_or_def)

lemma competitor_defined:
  assumes "\<not> nullish app"
  shows "competitor app = Inr (reduced app)"
proof -
  have d: "dot app k = Inr (get_prop app k)" for k
    using assms by (rule dot_defined)
  show ?thesis
    unfolding competitor_def reduced_def d chain_Inr or_else_js_or object_Inr3 ..
qed

lemma map_res_defined:
  "\<forall>x \<in> set xs. f x = Inr (g x) \<Longrightarrow> map_res f xs = Inr (map g xs)"
  by (induction xs) simp_all

lemma top_competitors_absent:
  "\<not> nullish rawData \<Longrightarrow> nullish (get_prop rawData ''related_apps'') \<Longrightarrow>
   top_competitors rawData = Inr (JArr [])"
  by (simp add: top_competitors_def dot_defined)

lemma top_competitors_array:
  assumes "\<not> nullish rawData" "get_prop rawData ''related_apps'' = JArr apps"
    and "\<forall>app \<in> set (take 3 apps). \<not> nullish app"
  shows "top_competitors rawData = Inr (JArr (map reduced (take 3 apps)))"
proof -
  from assms(3) have "map_res competitor (take 3 apps) = Inr (map reduced (take 3 apps))"
    by (intro map_res_defined) (simp add: competitor_defined)
  with assms(1,2) show ?thesis
    by (simp add: top_competitors_def dot_defined slice3_def array_map_def)
qed

lemma set_add_primitive:
  "primitive v \<Longrightarrow> v \<noteq> JNum NegZero \<Longrightarrow>
   set_add acc v = (if v \<in> set acc then acc else acc @ [v])"
  by (simp add: set_add_def stored_def)

lemma remdups_snoc:
  "remdups (ys @ [x]) = filter (\<lambda>y. y \<noteq> x) (remdups ys) @ [x]"
  by (induction ys) auto

lemma foldl_set_add:
  "list_all primitive xs \<Longrightarrow> JNum NegZero \<notin> set xs \<Longrightarrow> distinct acc \<Longrightarrow>
   foldl set_add acc xs = acc @ filter (\<lambda>x. x \<notin> set acc) (rev (remdups (rev xs)))"
proof (induction xs arbitrary: acc)
  case Nil
  then show ?case by simp
next
  case (Cons x xs)
  have x: "set_add acc x = (if x \<in> set acc then acc else acc @ [x])"
    using Cons.prems set_add_primitive [of x acc] by auto
  have r: "rev (remdups (rev xs @ [x])) = x # filter (\<lambda>y. y \<noteq> x) (rev (remdups (rev xs)))"
    by (simp add: remdups_snoc rev_filter)
  show ?case
  proof (cases "x \<in> set acc")
    case True
    with x have "foldl set_add acc (x # xs) = foldl set_add acc xs" by simp
    also have "\<dots> = acc @ filter (\<lambda>x. x \<notin> set acc) (rev (remdups (rev xs)))"
      using Cons by simp
    also have "filter (\<lambda>x. x \<notin> set acc) (rev (remdups (rev xs)))
                = filter (\<lambda>y. y \<notin> set acc) (rev (remdups (rev (x # xs))))"
      using True by (auto simp: r intro: filter_cong)
    finally show ?thesis .
  next
    case False
    with x have "foldl set_add acc (x # xs) = foldl set_add (acc @ [x]) xs" by simp
    also have "\<dots> = (acc @ [x]) @ filter (\<lambda>y. y \<notin> set (acc @ [x])) (rev (remdups (rev xs)))"
      using Cons False by simp
    also have "\<dots> = acc @ filter (\<lambda>y. y \<notin> set acc) (rev (remdups (rev (x # xs))))"
      using False by (auto simp: r intro: filter_cong)
    finally show ?thesis .
  qed
qed

lemma set_values_first_seen:
  "list_all primitive xs \<Longrightarrow> JNum NegZero \<notin> set xs \<Longrightarrow>
   set_values xs = rev (remdups (rev xs))"
  using foldl_set_add [of xs "[]"] by (simp add: set_values_def)

lemma extractTopIAPPrices_array:
  assumes "truthy iapData" "get_prop iapData ''US'' = JArr us"
    and "\<forall>iap \<in> set (take 3 us). \<not> nullish iap"
  shows "extractTopIAPPrices iapData =
           JArr (set_values (map (\<lambda>iap. get_prop iap ''price'') (take 3 us)))"
proof -
  from assms(3) have "map_res (\<lambda>iap. dot iap ''price'') (take 3 us)
                        = Inr (map (\<lambda>iap. get_prop iap ''price'') (take 3 us))"
    by (intro map_res_defined) (simp add: dot_defined)
  with assms(1,2) show ?thesis
    by (simp add: extractTopIAPPrices_def dot_defined truthy_not_nullish slice3_def array_map_def)
qed

lemma extractTopIAPPrices_US_only:
  "truthy a \<Longrightarrow> truthy b \<Longrightarrow> get_prop a ''US'' = get_prop b ''US'' \<Longrightarrow>
   extractTopIAPPrices a = extractTopIAPPrices b"
  by (simp add: extractTopIAPPrices_def dot_defined truthy_not_nullish)

lemma if_Inr: "(if c then Inr a else Inr b) = Inr (if c then a else b)"
  by simp

lemma essential_eq:
  assumes "truthy rawData"
  shows "essential h rawData platform identifier =
           andThen
             (formatRevenue h
                (js_or (opt (get_prop rawData ''worldwide_last_month_revenue'') ''value'')
                   (JNum (Fin 0))))
             (\<lambda>formatted.
                andThen (top_countries rawData) (\<lambda>countries.
                  andThen (top_competitors rawData) (\<lambda>competitors.
                    Inr (essential_record rawData platform identifier formatted countries
                           competitors))))"
proof -
  let ?v = "js_or (opt (get_prop rawData ''worldwide_last_month_revenue'') ''value'') (JNum (Fin 0))"
  have d: "dot rawData k = Inr (get_prop rawData k)" for k
    using assms by (simp add: dot_defined truthy_not_nullish)
  have a: "app_info rawData platform identifier = Inr (JObj
             [(''id'',
                 if platform = ''ios'' then get_prop rawData ''app_id''
                 else js_or (get_prop rawData ''package_name'') identifier),
              (''name'', js_or (get_prop rawData ''name'') (get_prop rawData ''title'')),
              (''publisher'',
                 js_or (get_prop rawData ''publisher_name'') (get_prop rawData ''developer'')),
              (''platform'', JStr platform),
              (''category'',
                 js_or (opt (opt (get_prop rawData ''categories'') ''0'') ''name'') (JStr ''Unknown'')),
              (''content_rating'', get_prop rawData ''content_rating''),
              (''current_version'', get_prop rawData ''current_version'')])"
    unfolding app_info_def d chain_Inr or_else_js_or if_Inr
    by (simp only: object_def literal_fields.simps andThen_Inr)
  have r: "revenue_metrics h rawData =
             andThen (formatRevenue h ?v) (\<lambda>formatted. Inr (JObj
               [(''last_month_revenue'',
                   js_or (opt (get_prop rawData ''worldwide_last_month_revenue'') ''value'')
                     (JNum (Fin 0))),
                (''last_month_downloads'',
                   js_or (opt (get_prop rawData ''worldwide_last_month_downloads'') ''value'')
                     (JNum (Fin 0))),
                (''revenue_currency'',
                   js_or (opt (get_prop rawData ''worldwide_last_month_revenue'') ''currency'')
                     (JStr ''USD'')),
                (''revenue_formatted'', JStr formatted)]))"
    unfolding revenue_metrics_def d chain_Inr or_else_js_or
    by (cases "formatRevenue h ?v")
      (simp_all only: object_def literal_fields.simps andThen_Inr andThen_Inl)
  have m: "monetization rawData = Inr (JObj
             [(''price'',
                 js_or
                   (js_or (opt (get_prop rawData ''price'') ''string_value'')
                      (get_prop rawData ''priceText''))
                   (JStr ''Free'')),
              (''has_in_app_purchases'',
                 js_or
                   (js_or (get_prop rawData ''has_in_app_purchases'') (get_prop rawData ''offersIAP''))
                   (JBool False)),
              (''top_iap_prices'',
                 extractTopIAPPrices (get_prop rawData ''top_in_app_purchases''))])"
    unfolding monetization_def d chain_Inr or_else_js_or
    by (simp only: object_def literal_fields.simps andThen_Inr)
  have p: "market_position rawData platform =
             andThen (top_countries rawData) (\<lambda>countries. Inr (JObj
               [(''overall_rating'', js_or (get_prop rawData ''rating'') (get_prop rawData ''score'')),
                (''rating_count'',
                   js_or (get_prop rawData ''rating_count'') (get_prop rawData ''reviews'')),
                (''top_countries'', countries),
                (''category_rankings'',
                   extractCategoryRankings (get_prop rawData ''category_rankings'') platform)]))"
    unfolding market_position_def d chain_Inr or_else_js_or
    by (cases "top_countries rawData")
      (simp_all only: object_def literal_fields.simps andThen_Inr andThen_Inl)
  have c: "competitive_analysis rawData =
             andThen (top_competitors rawData) (\<lambda>competitors. Inr (JObj
               [(''related_apps_count'',
                   js_or (opt (get_prop rawData ''related_apps'') ''length'') (JNum (Fin 0))),
                (''top_competitors'', competitors)]))"
    unfolding competitive_analysis_def d chain_Inr or_else_js_or
    by (cases "top_competitors rawData")
      (simp_all only: object_def literal_fields.simps andThen_Inr andThen_Inl)
  show ?thesis
    unfolding essential_def essential_record_def a r m p c
    by (cases "formatRevenue h ?v"; cases "top_countries rawData";
        cases "top_competitors rawData")
      (simp_all only: object_def literal_fields.simps andThen_Inr andThen_Inl)
qed

lemma top_countries_cases:
  "\<not> nullish rawData \<Longrightarrow>
   top_countries rawData =
     (case get_prop rawData ''top_countries'' of
        JUndefined \<Rightarrow> Inr (JArr [])
      | JNull \<Rightarrow> Inr (JArr [])
      | JArr xs \<Rightarrow> Inr (JArr (take 3 xs))
      | JStr s \<Rightarrow> Inr (if s = [] then JArr [] else JStr (take 3 s))
      | _ \<Rightarrow> Inl (not_a_function ''rawData.top_countries?.slice''))"
  by (cases "get_prop rawData ''top_countries''")
    (simp_all add: top_countries_def dot_defined slice3_def)

lemma extract_eq:
  assumes "truthy rawData"
  shows "extractEssentialRevenueData h rawData platform identifier =
     (case formatRevenue h
             (js_or (opt (get_prop rawData ''worldwide_last_month_revenue'') ''value'')
                (JNum (Fin 0))) of
        Inl e \<Rightarrow> Inr (degraded e)
      | Inr formatted \<Rightarrow>
          (case top_countries rawData of
             Inl e \<Rightarrow> Inr (degraded e)
           | Inr countries \<Rightarrow>
               (case top_competitors rawData of
                  Inl e \<Rightarrow> Inr (degraded e)
                | Inr competitors \<Rightarrow>
                    Inr (essential_record rawData platform identifier formatted countries
                           competitors))))"
  using assms
  by (simp add: extractEssentialRevenueData_def essential_eq degraded_def object_def
      split: sum.splits)

lemma extract_empty_object:
  "extractEssentialRevenueData h (JObj []) ''ios'' (JNum (Fin 123)) =
     Inr (JObj
       [(''app_info'',
           JObj [(''id'', JUndefined), (''name'', JUndefined), (''publisher'', JUndefined),
                 (''platform'', JStr ''ios''), (''category'', JStr ''Unknown''),
                 (''content_rating'', JUndefined), (''current_version'', JUndefined)]),
        (''revenue_metrics'',
           JObj [(''last_month_revenue'', JNum (Fin 0)), (''last_month_downloads'', JNum (Fin 0)),
                 (''revenue_currency'', JStr ''USD''), (''revenue_formatted'', JStr ''$0'')]),
        (''market_position'',
           JObj [(''overall_rating'', JUndefined), (''rating_count'', JUndefined),
                 (''top_countries'', JArr []), (''category_rankings'', JObj [])]),
        (''monetization'',
           JObj [(''price'', JStr ''Free''), (''has_in_app_purchases'', JBool False),
                 (''top_iap_prices'', JArr [])]),
        (''competitive_analysis'',
           JObj [(''related_apps_count'', JNum (Fin 0)), (''top_competitors'', JArr [])])])"
proof -
  have g: "get_prop (JObj []) k = JUndefined" for k by simp
  have t: "truthy (JObj [])" "\<not> nullish (JObj [])" by simp_all
  have 1: "top_countries (JObj []) = Inr (JArr [])"
    by (simp add: top_countries_cases)
  have 2: "top_competitors (JObj []) = Inr (JArr [])"
    by (simp add: top_competitors_absent)
  have 3: "extractCategoryRankings JUndefined p = JObj []" for p
    by (simp add: extractCategoryRankings_def)
  have 4: "extractTopIAPPrices JUndefined = JArr []"
    by (simp add: extractTopIAPPrices_def)
  have 5: "formatRevenue h (js_or (opt JUndefined ''value'') (JNum (Fin 0))) = Inr ''$0''"
    by (simp add: formatRevenue_def js_or_def opt_def)
  show ?thesis
    unfolding extract_eq [OF t(1)] 1 2 essential_record_def g 3 4 5
    by (simp add: js_or_def opt_def)
qed

lemma extract_returns:
  "\<exists>v. extractEssentialRevenueData h rawData platform i = Inr v"
proof (cases "truthy rawData")
  case True
  then show ?thesis by (simp add: extract_eq split: sum.splits)
next
  case False
  then show ?thesis by (simp add: extractEssentialRevenueData_def)
qed

lemma to_string_throws:
  "to_string h v = Inl e \<Longrightarrow> e = no_primitive_value"
  "join h vs = Inl e \<Longrightarrow> e = no_primitive_value"
  by (induction h v and h vs rule: to_string_join.induct)
    (auto simp: andThen_def split: if_splits sum.splits)

lemma formatRevenue_throws:
  assumes "formatRevenue h cents = Inl e"
  shows "e = no_primitive_value \<and> \<not> primitive cents"
proof (cases cents)
  case (JArr xs)
  with assms have "join h xs = Inl e"
    by (simp add: formatRevenue_def andThen_def Let_def split: sum.splits if_splits)
  with JArr show ?thesis by (simp add: to_string_throws(2))
next
  case (JObj kvs)
  with assms show ?thesis
    by (simp add: formatRevenue_def Let_def split: if_splits)
qed (use assms in \<open>simp_all add: formatRevenue_def Let_def split: if_splits\<close>)

lemma formatRevenue_opaque:
  "formatRevenue h opaque_amount = Inl no_primitive_value"
  "formatRevenue h (JArr [JNum (Fin 1), opaque_amount]) = Inl no_primitive_value"
  by (simp_all add: formatRevenue_def opaque_amount_def)

lemma truthy_opaque: "truthy opaque_amount" "truthy (JArr xs)"
  by (simp_all add: opaque_amount_def)

lemma extract_opaque:
  assumes "formatRevenue h amount = Inl e" "truthy amount"
  shows "extractEssentialRevenueData h (opaque_payload amount) platform identifier =
           Inr (degraded e)"
proof -
  have t: "truthy (opaque_payload amount)"
    by (simp add: opaque_payload_def)
  have v: "js_or (opt (get_prop (opaque_payload amount) ''worldwide_last_month_revenue'') ''value'')
             (JNum (Fin 0)) = amount"
    using assms(2) by (simp add: opaque_payload_def opt_def js_or_def)
  show ?thesis
    unfolding extract_eq [OF t] v assms(1) by simp
qed

text \<open>
  C5. For a falsy payload (null, undefined, the empty string, 0, false) the extractor
  returns null. For the empty object, platform \<open>ios\<close> and identifier 123 it returns the
  full record with the defaults: category \<open>Unknown\<close>, revenue 0, formatted \<open>$0\<close>, no
  competitors, price \<open>Free\<close>. It returns a value for every input. For a truthy payload,
  an error thrown in the \<open>try\<close> block becomes the record with \<open>error\<close> (the message after
  \<open>Failed to extract data: \<close>) and \<open>raw_data_available: true\<close>. Three property values can
  throw, and the first that does decides the record: \<open>revenue_formatted\<close> (only when
  the revenue value is an array or an object without a primitive value, such as
  \<open>{"toString": null}\<close> or an array that holds it), then \<open>top_countries\<close>, then
  \<open>top_competitors\<close>; when none throws, the result is the full record.
\<close>

theorem extract_null_safe:
  "(\<not> truthy rawData \<longrightarrow>
      extractEssentialRevenueData h rawData platform identifier = Inr JNull) \<and>
   extractEssentialRevenueData h (JObj []) ''ios'' (JNum (Fin 123)) =
     Inr (JObj
       [(''app_info'',
           JObj [(''id'', JUndefined), (''name'', JUndefined), (''publisher'', JUndefined),
                 (''platform'', JStr ''ios''), (''category'', JStr ''Unknown''),
                 (''content_rating'', JUndefined), (''current_version'', JUndefined)]),
        (''revenue_metrics'',
           JObj [(''last_month_revenue'', JNum (Fin 0)), (''last_month_downloads'', JNum (Fin 0)),
                 (''revenue_currency'', JStr ''USD''), (''revenue_formatted'', JStr ''$0'')]),
        (''market_position'',
           JObj [(''overall_rating'', JUndefined), (''rating_count'', JUndefined),
                 (''top_countries'', JArr []), (''category_rankings'', JObj [])]),
        (''monetization'',
           JObj [(''price'', JStr ''Free''), (''has_in_app_purchases'', JBool False),
                 (''top_iap_prices'', JArr [])]),
        (''competitive_analysis'',
           JObj [(''related_apps_count'', JNum (Fin 0)), (''top_competitors'', JArr [])])]) \<and>
   (\<exists>v. extractEssentialRevenueData h rawData platform identifier = Inr v) \<and>
   (truthy rawData \<longrightarrow>
      (\<forall>e. essential h rawData platform identifier = Inl e \<longrightarrow>
         extractEssentialRevenueData h rawData platform identifier =
           Inr (JObj [(''error'', JStr (''Failed to extract data: '' @ message e)),
                      (''raw_data_available'', JBool True)])) \<and>
      (\<forall>r. essential h rawData platform identifier = Inr r \<longrightarrow>
         extractEssentialRevenueData h rawData platform identifier = Inr r) \<and>
      extractEssentialRevenueData h rawData platform identifier =
        (case formatRevenue h
                (js_or (opt (get_prop rawData ''worldwide_last_month_revenue'') ''value'')
                   (JNum (Fin 0))) of
           Inl e \<Rightarrow> Inr (degraded e)
         | Inr formatted \<Rightarrow>
             (case top_countries rawData of
                Inl e \<Rightarrow> Inr (degraded e)
              | Inr countries \<Rightarrow>
                  (case top_competitors rawData of
                     Inl e \<Rightarrow> Inr (degraded e)
                   | Inr competitors \<Rightarrow>
                       Inr (essential_record rawData platform identifier formatted countries
                              competitors))))) \<and>
   (\<forall>e. formatRevenue h cents = Inl e \<longrightarrow> e = no_primitive_value \<and> \<not> primitive cents) \<and>
   extractEssentialRevenueData h (opaque_payload opaque_amount) platform identifier =
     Inr (JObj [(''error'',
                   JStr ''Failed to extract data: Cannot convert object to primitive value''),
                (''raw_data_available'', JBool True)]) \<and>
   extractEssentialRevenueData h (opaque_payload (JArr [JNum (Fin 1), opaque_amount])) platform
       identifier =
     Inr (JObj [(''error'',
                   JStr ''Failed to extract data: Cannot convert object to primitive value''),
                (''raw_data_available'', JBool True)])"
proof (intro conjI impI allI)
  show "extractEssentialRevenueData h rawData platform identifier =
        (case formatRevenue h
                (js_or (opt (get_prop rawData ''worldwide_last_month_revenue'') ''value'')
                   (JNum (Fin 0))) of
           Inl e \<Rightarrow> Inr (degraded e)
         | Inr formatted \<Rightarrow>
             (case top_countries rawData of
                Inl e \<Rightarrow> Inr (degraded e)
              | Inr countries \<Rightarrow>
                  (case top_competitors rawData of
                     Inl e \<Rightarrow> Inr (degraded e)
                   | Inr competitors \<Rightarrow>
                       Inr (essential_record rawData platform identifier formatted countries
                              competitors))))"
    if "truthy rawData"
    using that by (rule extract_eq)
  show "extractEssentialRevenueData h rawData platform identifier = Inr JNull"
    if "\<not> truthy rawData"
    using that by (simp add: extractEssentialRevenueData_def)
  show "\<exists>v. extractEssentialRevenueData h rawData platform identifier = Inr v"
    by (rule extract_returns)
  show "extractEssentialRevenueData h rawData platform identifier =
           Inr (JObj [(''error'', JStr (''Failed to extract data: '' @ message e)),
                      (''raw_data_available'', JBool True)])"
    if "truthy rawData" "essential h rawData platform identifier = Inl e" for e
    using that by (simp add: extractEssentialRevenueData_def object_def)
  show "extractEssentialRevenueData h rawData platform identifier = Inr r"
    if "truthy rawData" "essential h rawData platform identifier = Inr r" for r
    using that by (simp add: extractEssentialRevenueData_def)
  show "e = no_primitive_value" "\<not> primitive cents" if "formatRevenue h cents = Inl e" for e
    using formatRevenue_throws [OF that] by simp_all
  show "extractEssentialRevenueData h (opaque_payload opaque_amount) platform identifier =
     Inr (JObj [(''error'',
                   JStr ''Failed to extract data: Cannot convert object to primitive value''),
                (''raw_data_available'', JBool True)])"
    unfolding extract_opaque [OF formatRevenue_opaque(1) truthy_opaque(1)]
    by (simp add: degraded_def no_primitive_value_def)
  show "extractEssentialRevenueData h (opaque_payload (JArr [JNum (Fin 1), opaque_amount])) platform
       identifier =
     Inr (JObj [(''error'',
                   JStr ''Failed to extract data: Cannot convert object to primitive value''),
                (''raw_data_available'', JBool True)])"
    unfolding extract_opaque [OF formatRevenue_opaque(2) truthy_opaque(2)]
    by (simp add: degraded_def no_primitive_value_def)
qed (rule extract_empty_object)

theorem extract_null_safe_witness:
  "\<forall>h. extractEssentialRevenueData h JNull ''ios'' (JNum (Fin 123)) = Inr JNull \<and>
       extractEssentialRevenueData h (JStr []) ''ios'' (JNum (Fin 123)) = Inr JNull \<and>
       extractEssentialRevenueData h (JObj [(''top_countries'', JNum (Fin 5))]) ''android''
           (JStr ''com.x'')
         = Inr (JObj [(''error'',
                        JStr ''Failed to extract data: rawData.top_countries?.slice is not a function''),
                      (''raw_data_available'', JBool True)]) \<and>
       extractEssentialRevenueData h (opaque_payload opaque_amount) ''android'' (JStr ''com.x'')
         = Inr (JObj [(''error'',
                        JStr ''Failed to extract data: Cannot convert object to primitive value''),
                      (''raw_data_available'', JBool True)])"
proof
  fix h
  have e: "essential h (JObj [(''top_countries'', JNum (Fin 5))]) ''android'' (JStr ''com.x'')
             = Inl (not_a_function ''rawData.top_countries?.slice'')"
    by (simp add: essential_eq top_countries_cases formatRevenue_def js_or_def opt_def)
  have t: "truthy (opaque_payload opaque_amount)"
    by (simp add: opaque_payload_def)
  have f: "essential h (opaque_payload opaque_amount) ''android'' (JStr ''com.x'')
             = Inl no_primitive_value"
    unfolding essential_eq [OF t]
    by (simp add: opaque_payload_def js_or_def opt_def truthy_opaque formatRevenue_opaque)
  from extract_null_safe [of JNull h "''ios''" "JNum (Fin 123)"]
    extract_null_safe [of "JStr []" h "''ios''" "JNum (Fin 123)"]
    extract_null_safe [of "JObj [(''top_countries'', JNum (Fin 5))]" h "''android''" "JStr ''com.x''"]
    extract_null_safe [of "opaque_payload opaque_amount" h "''android''" "JStr ''com.x''"]
    e f t
  show "extractEssentialRevenueData h JNull ''ios'' (JNum (Fin 123)) = Inr JNull \<and>
       extractEssentialRevenueData h (JStr []) ''ios'' (JNum (Fin 123)) = Inr JNull \<and>
       extractEssentialRevenueData h (JObj [(''top_countries'', JNum (Fin 5))]) ''android''
           (JStr ''com.x'')
         = Inr (JObj [(''error'',
                        JStr ''Failed to extract data: rawData.top_countries?.slice is not a function''),
                      (''raw_data_available'', JBool True)]) \<and>
       extractEssentialRevenueData h (opaque_payload opaque_amount) ''android'' (JStr ''com.x'')
         = Inr (JObj [(''error'',
                        JStr ''Failed to extract data: Cannot convert object to primitive value''),
                      (''raw_data_available'', JBool True)])"
    by (simp add: not_a_function_def no_primitive_value_def)
qed

lemma competitor_nullish: "nullish app \<Longrightarrow> \<exists>e. competitor app = Inl e"
  by (simp add: competitor_def dot_def)

lemma map_res_fails:
  "\<exists>x \<in> set xs. \<exists>e. f x = Inl e \<Longrightarrow> \<exists>e. map_res f xs = Inl e"
proof (induction xs)
  case Nil
  then show ?case by simp
next
  case (Cons x xs)
  show ?case
  proof (cases "f x")
    case (Inl e)
    then show ?thesis by simp
  next
    case (Inr y)
    with Cons.prems have "\<exists>x \<in> set xs. \<exists>e. f x = Inl e" by auto
    then obtain e where "map_res f xs = Inl e" using Cons.IH by blast
    with Inr show ?thesis by simp
  qed
qed

lemma top_competitors_null_entry:
  assumes "\<not> nullish rawData" "get_prop rawData ''related_apps'' = JArr apps"
    and "\<exists>app \<in> set (take 3 apps). nullish app"
  shows "\<exists>e. top_competitors rawData = Inl e"
proof -
  from assms(3) have "\<exists>app \<in> set (take 3 apps). \<exists>e. competitor app = Inl e"
    using competitor_nullish by blast
  then have "\<exists>e. map_res competitor (take 3 apps) = Inl e"
    by (rule map_res_fails)
  then obtain e where "map_res competitor (take 3 apps) = Inl e" ..
  then have m: "array_map ''rawData.related_apps?.slice(...)?.map'' (JArr (take 3 apps)) competitor
                  = Inl e"
    by (simp only: array_map_def jsval.case andThen_Inl)
  have d: "dot rawData ''related_apps'' = Inr (JArr apps)"
    using assms(1,2) by (simp add: dot_defined)
  have s: "slice3 ''rawData.related_apps?.slice'' (JArr apps) = Inr (JArr (take 3 apps))"
    by (simp only: slice3_def jsval.case)
  have "top_competitors rawData = Inl e"
    unfolding top_competitors_def d andThen_Inr s
    by (simp only: nullish.simps if_False andThen_Inr m or_else_Inl)
  then show ?thesis by blast
qed

lemma extractTopIAPPrices_null_entry:
  assumes "truthy iapData" "get_prop iapData ''US'' = JArr us"
    and "\<exists>iap \<in> set (take 3 us). nullish iap"
  shows "extractTopIAPPrices iapData = JArr []"
proof -
  from assms(3) have "\<exists>iap \<in> set (take 3 us). \<exists>e. dot iap ''price'' = Inl e"
    by (auto simp: dot_def)
  then have "\<exists>e. map_res (\<lambda>iap. dot iap ''price'') (take 3 us) = Inl e"
    by (rule map_res_fails)
  then obtain e where "map_res (\<lambda>iap. dot iap ''price'') (take 3 us) = Inl e" ..
  then have m: "array_map ''iapData.US.slice(...).map'' (JArr (take 3 us)) (\<lambda>iap. dot iap ''price'')
                  = Inl e"
    by (simp only: array_map_def jsval.case andThen_Inl)
  have d: "dot iapData ''US'' = Inr (JArr us)"
    using assms(1,2) by (simp add: dot_defined truthy_not_nullish)
  have s: "slice3 ''iapData.US.slice'' (JArr us) = Inr (JArr (take 3 us))"
    by (simp only: slice3_def jsval.case)
  show ?thesis
    unfolding extractTopIAPPrices_def d andThen_Inr
    using assms(1) by (simp only: truthy.simps if_True if_False not_True_eq_False s andThen_Inr m
        andThen_Inl sum.case)
qed

lemma extractTopIAPPrices_absent:
  "\<not> truthy iapData \<or> \<not> truthy (get_prop iapData ''US'') \<Longrightarrow>
   extractTopIAPPrices iapData = JArr []"
  by (cases "truthy iapData")
    (auto simp: extractTopIAPPrices_def dot_defined truthy_not_nullish set_values_def)

lemma stored_idem: "stored (stored v) = stored v"
  by (simp add: stored_def)

lemma set_add_stored: "set_add acc (stored v) = set_add acc v"
  by (simp add: set_add_def stored_idem)

lemma foldl_set_add_stored: "foldl set_add acc (map stored xs) = foldl set_add acc xs"
  by (induction xs arbitrary: acc) (simp_all add: set_add_stored)

lemma primitive_stored: "primitive (stored v) = primitive v"
  by (simp add: stored_def)

lemma set_values_first_seen_stored:
  assumes "list_all primitive xs"
  shows "set_values xs = rev (remdups (rev (map stored xs)))"
proof -
  have "list_all primitive (map stored xs)"
    using assms by (simp add: list_all_iff primitive_stored)
  moreover have "JNum NegZero \<notin> set (map stored xs)"
    by (auto simp: stored_def)
  ultimately have "set_values (map stored xs) = rev (remdups (rev (map stored xs)))"
    by (rule set_values_first_seen)
  then show ?thesis by (simp add: set_values_def foldl_set_add_stored)
qed

text \<open>
  C8. Absent related apps give an empty competitor list. An array of related apps whose
  first three entries are neither null nor undefined gives the first three entries
  (exactly three for a list of ten), each reduced to name, rating and price; a null or
  undefined entry among the first three makes the competitor extraction throw (which
  \<open>extractEssentialRevenueData\<close> catches). When extraction succeeds, the record holds
  these competitors and the prices of \<open>extractTopIAPPrices\<close>. Absent in-app purchases or
  an absent \<open>US\<close> bucket give no prices. The prices are read from the first three
  entries of the \<open>US\<close> bucket (none when one of these entries is null or undefined): two
  in-app purchase objects with the same \<open>US\<close> bucket give the same prices, whatever else
  they hold, and the extractor takes no region. The prices are the values of a \<open>Set\<close> in
  insertion order: for primitive prices, no value twice, the same values as stored (\<open>-0\<close>
  as \<open>0\<close>), each at its first occurrence.
\<close>

theorem competitors_and_iap_bounded:
  "(\<not> nullish rawData \<and> nullish (get_prop rawData ''related_apps'') \<longrightarrow>
      top_competitors rawData = Inr (JArr [])) \<and>
   (\<not> nullish rawData \<and> get_prop rawData ''related_apps'' = JArr apps \<longrightarrow>
      ((\<forall>app \<in> set (take 3 apps). \<not> nullish app) \<longrightarrow>
         top_competitors rawData = Inr (JArr (map reduced (take 3 apps))) \<and>
         length (map reduced (take 3 apps)) = min 3 (length apps) \<and>
         (length apps = 10 \<longrightarrow> length (map reduced (take 3 apps)) = 3)) \<and>
      ((\<exists>app \<in> set (take 3 apps). nullish app) \<longrightarrow>
         (\<exists>e. top_competitors rawData = Inl e))) \<and>
   (truthy rawData \<longrightarrow>
      (\<forall>r. extractEssentialRevenueData h rawData platform identifier = Inr r \<and>
           get_prop r ''error'' = JUndefined \<longrightarrow>
         top_competitors rawData
           = Inr (get_prop (get_prop r ''competitive_analysis'') ''top_competitors'') \<and>
         get_prop (get_prop r ''monetization'') ''top_iap_prices''
           = extractTopIAPPrices (get_prop rawData ''top_in_app_purchases''))) \<and>
   (\<not> truthy iapData \<or> \<not> truthy (get_prop iapData ''US'') \<longrightarrow>
      extractTopIAPPrices iapData = JArr []) \<and>
   (truthy iapData \<and> get_prop iapData ''US'' = JArr us \<longrightarrow>
      extractTopIAPPrices iapData =
        (if \<exists>iap \<in> set (take 3 us). nullish iap then JArr []
         else JArr (set_values (map (\<lambda>iap. get_prop iap ''price'') (take 3 us))))) \<and>
   (truthy iapData \<and> truthy other \<and> get_prop iapData ''US'' = get_prop other ''US'' \<longrightarrow>
      extractTopIAPPrices iapData = extractTopIAPPrices other) \<and>
   (list_all primitive prices \<longrightarrow>
      distinct (set_values prices) \<and> set (set_values prices) = stored ` set prices \<and>
      set_values prices = rev (remdups (rev (map stored prices))))"
proof (intro conjI impI allI)
  show "top_competitors rawData = Inr (JArr [])"
    if "\<not> nullish rawData \<and> nullish (get_prop rawData ''related_apps'')"
    using that by (simp add: top_competitors_absent)
  show "top_competitors rawData = Inr (JArr (map reduced (take 3 apps)))"
    if "\<not> nullish rawData \<and> get_prop rawData ''related_apps'' = JArr apps"
      "\<forall>app \<in> set (take 3 apps). \<not> nullish app"
    using that by (simp add: top_competitors_array)
  show "\<exists>e. top_competitors rawData = Inl e"
    if "\<not> nullish rawData \<and> get_prop rawData ''related_apps'' = JArr apps"
      "\<exists>app \<in> set (take 3 apps). nullish app"
    using that top_competitors_null_entry [of rawData apps] by blast
  show "length (map reduced (take 3 apps)) = min 3 (length apps)"
    by simp
  show "length (map reduced (take 3 apps)) = 3" if "length apps = 10"
    using that by simp
  show "extractTopIAPPrices iapData = JArr []"
    if "\<not> truthy iapData \<or> \<not> truthy (get_prop iapData ''US'')"
    using that by (rule extractTopIAPPrices_absent)
  show "extractTopIAPPrices iapData =
        (if \<exists>iap \<in> set (take 3 us). nullish iap then JArr []
         else JArr (set_values (map (\<lambda>iap. get_prop iap ''price'') (take 3 us))))"
    if "truthy iapData \<and> get_prop iapData ''US'' = JArr us"
    using that extractTopIAPPrices_array [of iapData us]
      extractTopIAPPrices_null_entry [of iapData us]
    by (cases "\<exists>iap \<in> set (take 3 us). nullish iap") simp_all
  show "extractTopIAPPrices iapData = extractTopIAPPrices other"
    if "truthy iapData \<and> truthy other \<and> get_prop iapData ''US'' = get_prop other ''US''"
    using that by (simp add: extractTopIAPPrices_US_only)
  show f: "set_values prices = rev (remdups (rev (map stored prices)))"
    if "list_all primitive prices"
    using that by (rule set_values_first_seen_stored)
  show "distinct (set_values prices)" "set (set_values prices) = stored ` set prices"
    if "list_all primitive prices"
    using f [OF that] by simp_all
next
  fix r
  assume t: "truthy rawData"
    and r: "extractEssentialRevenueData h rawData platform identifier = Inr r \<and>
            get_prop r ''error'' = JUndefined"
  have d: "get_prop (degraded e) ''error'' \<noteq> JUndefined" for e
    by (simp add: degraded_def)
  from r d obtain formatted countries competitors where
    c: "top_competitors rawData = Inr competitors"
    and e: "r = essential_record rawData platform identifier formatted countries competitors"
    unfolding extract_eq [OF t] by (auto split: sum.splits)
  show "top_competitors rawData
           = Inr (get_prop (get_prop r ''competitive_analysis'') ''top_competitors'')"
    unfolding c e by (simp add: essential_record_def)
  show "get_prop (get_prop r ''monetization'') ''top_iap_prices''
           = extractTopIAPPrices (get_prop rawData ''top_in_app_purchases'')"
    unfolding e by (simp add: essential_record_def)
qed

lemma dec_small: "n < 10 \<Longrightarrow> dec n = [digit_char n]"
  by (subst dec.simps) simp

lemma dec_large: "\<not> n < 10 \<Longrightarrow> dec n = dec (n div 10) @ [digit_char (n mod 10)]"
  by (subst dec.simps) simp

lemma dec_length: "\<not> n < 10 \<Longrightarrow> \<not> length (dec n) \<le> 1"
  using dec_nonempty [of "n div 10"] by (simp add: dec_large)

lemma toFixed1_finite:
  assumes "0 \<le> x" "x < 10 ^ 21"
  shows "toFixed1 h (Fin x) =
           dec (nat \<lfloor>x * 10 + 1 / 2\<rfloor> div 10) @ ''.'' @ [digit_char (nat \<lfloor>x * 10 + 1 / 2\<rfloor> mod 10)]"
proof -
  let ?n = "nat \<lfloor>x * 10 + 1 / 2\<rfloor>"
  have a: "\<bar>x\<bar> = x" "\<not> x < 0" "\<not> 10 ^ 21 \<le> x" using assms by simp_all
  show ?thesis
  proof (cases "?n < 10")
    case True
    then have "dec ?n = [digit_char ?n]" "?n div 10 = 0" "?n mod 10 = ?n"
      by (simp_all add: dec_small)
    moreover have "dec 0 = ''0''" by (simp add: dec_small digit_char_def)
    ultimately show ?thesis
      using a by (simp add: toFixed1_def Let_def)
  next
    case False
    from dec_large [OF this] dec_length [OF this] show ?thesis
      using a by (simp add: toFixed1_def Let_def)
  qed
qed

lemma nearest_tenth:
  fixes x :: rat
  assumes "0 \<le> x"
  shows "\<bar>of_nat (nat \<lfloor>x * 10 + 1 / 2\<rfloor>) / 10 - x\<bar> \<le> 1 / 20"
proof -
  let ?f = "\<lfloor>x * 10 + 1 / 2\<rfloor>"
  have "0 \<le> ?f" using assms by simp
  then have n: "(of_nat (nat ?f) :: rat) = of_int ?f" by simp
  have 1: "of_int ?f \<le> x * 10 + 1 / 2"
    by (rule of_int_floor_le)
  have 2: "x * 10 + 1 / 2 < of_int ?f + 1"
    using floor_correct [of "x * 10 + 1 / 2"] by simp
  from 1 have u: "of_int ?f / 10 - x \<le> 1 / 20" by linarith
  from 2 have l: "- (1 / 20) \<le> of_int ?f / 10 - x" by linarith
  from u l show ?thesis unfolding n by (simp only: abs_le_iff) simp
qed

lemma formatRevenue_number:
  assumes "truthy (JNum c)"
  shows "formatRevenue h (JNum c) =
           (if num_ge (num_div c 100) 1000000
            then Inr (''$'' @ toFixed1 h (num_div (num_div c 100) 1000000) @ ''M'')
            else if num_ge (num_div c 100) 1000
            then Inr (''$'' @ toFixed1 h (num_div (num_div c 100) 1000) @ ''K'')
            else Inr (''$'' @ locale_string h (num_div c 100)))"
  using assms by (simp add: formatRevenue_def Let_def)

lemma div_2500000: "num_div (Fin 2500000) 100 = Fin 25000" "num_div (Fin 25000) 1000 = Fin 25"
  by code_simp+

lemma div_150000000:
  "num_div (Fin 150000000) 100 = Fin 1500000" "num_div (Fin 1500000) 1000000 = Fin (3 / 2)"
  by code_simp+

lemma div_50000: "num_div (Fin 50000) 100 = Fin 500"
  by code_simp

lemma toFixed1_25: "toFixed1 h (Fin 25) = ''25.0''"
  by code_simp

lemma toFixed1_3_2: "toFixed1 h (Fin (3 / 2)) = ''1.5''"
  by code_simp

lemma format_2500000: "formatRevenue h (JNum (Fin 2500000)) = Inr ''$25.0K''"
  by (simp add: formatRevenue_number div_2500000 toFixed1_25 num_ge_def)

lemma format_150000000: "formatRevenue h (JNum (Fin 150000000)) = Inr ''$1.5M''"
  by (simp add: formatRevenue_number div_150000000 toFixed1_3_2 num_ge_def)

lemma format_50000:
  "formatRevenue h (JNum (Fin 50000)) = Inr (''$'' @ locale_string h (Fin 500))"
  by (simp add: formatRevenue_number div_50000 num_ge_def)

lemma extract_revenue_fields:
  assumes "truthy rawData"
    and "extractEssentialRevenueData h rawData platform identifier = Inr r"
    and "get_prop r ''error'' = JUndefined"
  shows "get_prop (get_prop r ''revenue_metrics'') ''last_month_revenue'' =
           js_or (opt (get_prop rawData ''worldwide_last_month_revenue'') ''value'') (JNum (Fin 0))"
    and "\<exists>formatted.
           formatRevenue h
             (js_or (opt (get_prop rawData ''worldwide_last_month_revenue'') ''value'')
                (JNum (Fin 0))) = Inr formatted \<and>
           get_prop (get_prop r ''revenue_metrics'') ''revenue_formatted'' = JStr formatted"
proof -
  have d: "get_prop (degraded e) ''error'' \<noteq> JUndefined" for e
    by (simp add: degraded_def)
  from assms(2,3) d obtain formatted countries competitors where
    f: "formatRevenue h
          (js_or (opt (get_prop rawData ''worldwide_last_month_revenue'') ''value'')
             (JNum (Fin 0))) = Inr formatted"
    and e: "r = essential_record rawData platform identifier formatted countries competitors"
    unfolding extract_eq [OF assms(1)] by (auto split: sum.splits)
  show "get_prop (get_prop r ''revenue_metrics'') ''last_month_revenue'' =
           js_or (opt (get_prop rawData ''worldwide_last_month_revenue'') ''value'') (JNum (Fin 0))"
    unfolding e by (simp add: essential_record_def)
  show "\<exists>formatted.
           formatRevenue h
             (js_or (opt (get_prop rawData ''worldwide_last_month_revenue'') ''value'')
                (JNum (Fin 0))) = Inr formatted \<and>
           get_prop (get_prop r ''revenue_metrics'') ''revenue_formatted'' = JStr formatted"
    using f unfolding e by (simp add: essential_record_def)
qed

lemma pow2_nat_powi: "0 \<le> m \<Longrightarrow> (2 :: rat) ^ nat m = 2 powi m"
  by (simp add: power_int_def)

lemma ilog2_lower:
  assumes "0 < a"
  shows "2 powi (ilog2 a) \<le> a"
proof -
  obtain n d where q: "quotient_of a = (n, d)" by (cases "quotient_of a")
  then have d: "0 < d" by (rule quotient_of_denom_pos)
  from q have a: "a = of_int n / of_int d"
    by (metis quotient_of_div)
  with assms d have n: "0 < n"
    by (simp add: zero_less_divide_iff)
  let ?k = "bitlen n - bitlen d"
  show ?thesis
  proof (cases "2 powi ?k \<le> a")
    case True
    with q show ?thesis by (simp add: ilog2_def)
  next
    case False
    from bitlen_bounds [OF n] have 1: "(2 :: int) ^ nat (bitlen n - 1) \<le> n" by simp
    from bitlen_bounds [OF d] have 2: "d < (2 :: int) ^ nat (bitlen d)" by simp
    have bn: "1 \<le> bitlen n" using n by (simp add: bitlen_alt_def)
    have bd: "0 \<le> bitlen d" by (rule bitlen_nonneg)
    from 1 have l1: "(2 :: rat) powi (bitlen n - 1) \<le> of_int n"
      using bn pow2_nat_powi [of "bitlen n - 1"]
      by (metis diff_ge_0_iff_ge of_int_le_iff of_int_numeral of_int_power)
    from 2 have l2: "of_int d \<le> (2 :: rat) powi (bitlen d)"
      using bd pow2_nat_powi [of "bitlen d"]
      by (metis less_imp_le of_int_le_iff of_int_numeral of_int_power)
    have "(2 :: rat) powi (?k - 1) = 2 powi (bitlen n - 1) / 2 powi (bitlen d)"
      by (simp add: power_int_diff)
    also have "\<dots> \<le> of_int n / 2 powi (bitlen d)"
      using l1 by (simp add: divide_right_mono)
    also have "\<dots> \<le> of_int n / of_int d"
      using l2 d n by (simp add: frac_le)
    finally have "(2 :: rat) powi (?k - 1) \<le> a" unfolding a .
    with False q show ?thesis by (simp add: ilog2_def)
  qed
qed

lemma round_half_even_bounds:
  "0 \<le> m \<Longrightarrow> 0 \<le> round_half_even m"
  "of_int (round_half_even m) \<le> m + 1"
proof -
  have f: "of_int \<lfloor>m\<rfloor> \<le> m" by (rule of_int_floor_le)
  show "0 \<le> round_half_even m" if "0 \<le> m"
    using that by (simp add: round_half_even_def Let_def)
  have "round_half_even m \<le> \<lfloor>m\<rfloor> + 1"
    by (simp add: round_half_even_def Let_def)
  then have "(of_int (round_half_even m) :: rat) \<le> of_int (\<lfloor>m\<rfloor> + 1)"
    by (simp only: of_int_le_iff)
  with f show "of_int (round_half_even m) \<le> m + 1"
    by (simp only: of_int_add of_int_1)
qed

lemma rd_nonneg: "0 \<le> x \<Longrightarrow> 0 \<le> rd x"
  by (simp add: rd_def Let_def round_half_even_bounds(1))

lemma rd_upper:
  assumes "0 < x"
  shows "rd x \<le> 2 * x + 1"
proof -
  let ?p = "max (ilog2 x - 52) (- 1074)"
  let ?u = "(2 :: rat) powi ?p"
  have u: "0 < ?u" by simp
  have "?u \<le> x + 1"
  proof (cases "ilog2 x - 52 \<le> - 1074")
    case True
    then have "?p = - 1074" by simp
    moreover have "(2 :: rat) powi (- 1074) \<le> 1"
      by (simp add: power_int_def field_simps)
    ultimately show ?thesis using assms by simp
  next
    case False
    then have "?p = ilog2 x - 52" by simp
    moreover have "(2 :: rat) powi (ilog2 x - 52) \<le> 2 powi (ilog2 x)"
      by (rule power_int_increasing) simp_all
    ultimately show ?thesis using ilog2_lower [OF assms] by simp
  qed
  moreover have "rd x = of_int (round_half_even (x / ?u)) * ?u"
    using assms by (simp add: rd_def Let_def)
  moreover have "of_int (round_half_even (x / ?u)) * ?u \<le> (x / ?u + 1) * ?u"
    using round_half_even_bounds(2) [of "x / ?u"] u by (simp add: mult_right_mono)
  moreover have "(x / ?u + 1) * ?u = x + ?u"
    using u by (simp add: field_simps)
  ultimately show ?thesis by linarith
qed

lemma toFixed1_one_decimal:
  "0 \<le> x \<Longrightarrow> x < 10 ^ 21 \<Longrightarrow> toFixed1 h (Fin x) = one_decimal x"
  by (simp only: toFixed1_finite one_decimal_def Let_def)

lemma thousands_finite:
  assumes "num_ge d 1000" "\<not> num_ge d 1000000"
  shows "\<exists>x. num_div d 1000 = Fin x \<and> 0 \<le> x \<and> x < 10 ^ 21"
proof -
  from assms obtain r where d: "d = Fin r" and r: "1000 \<le> r" "r < 1000000"
    by (cases d) (simp_all add: num_ge_def)
  have p: "0 < r / 1000" using r by simp
  have n: "0 \<le> rd (r / 1000)" using p by (simp add: rd_nonneg)
  have "rd (r / 1000) \<le> 2 * (r / 1000) + 1" using p by (rule rd_upper)
  also have "\<dots> < 10 ^ 21" using r by simp
  finally have u: "rd (r / 1000) < 10 ^ 21" .
  have "num_div d 1000 = Fin (rd (r / 1000))"
    using r by (simp add: num_div_def d Let_def)
  with n u show ?thesis by blast
qed

lemma millions_nonneg:
  assumes "num_ge d 1000000" "num_div d 1000000 = Fin x"
  shows "0 \<le> x"
proof -
  from assms obtain r where d: "d = Fin r" and r: "1000000 \<le> r"
    by (cases d) (simp_all add: num_ge_def num_div_def)
  have "0 \<le> rd (r / 1000000)" using r by (simp add: rd_nonneg)
  moreover have "num_div d 1000000 = Fin (rd (r / 1000000))"
    using r by (simp add: num_div_def d Let_def)
  ultimately show ?thesis using assms(2) by simp
qed

text \<open>
  C3. \<open>formatRevenue\<close> gives \<open>$0\<close> for a falsy amount (0, undefined, null). For a number
  \<open>c\<close> other than 0, with \<open>dollars = c / 100\<close>: \<open>$\<close>, \<open>toFixed(1)\<close> of
  \<open>dollars / 1000000\<close> and \<open>M\<close> when \<open>dollars \<ge> 1000000\<close>, which is the quotient to one
  decimal when the quotient is below 10^21; \<open>$\<close>, \<open>dollars / 1000\<close> to one decimal and \<open>K\<close>
  when \<open>1000 \<le> dollars < 1000000\<close> (the quotient is then a finite number in [0, 10^21),
  on every host); \<open>$\<close> and \<open>dollars.toLocaleString()\<close> below 1000. \<open>toFixed(1)\<close> of a
  finite \<open>x\<close> in [0, 10^21) is \<open>x\<close> to one decimal: the decimal numeral of the tenths
  nearest to \<open>x\<close>, with one digit after the point.
  2500000 gives \<open>$25.0K\<close>, 150000000 gives \<open>$1.5M\<close>, and 50000 gives \<open>$500\<close> on a host
  that writes 500 as \<open>500\<close>. In the extracted record, \<open>last_month_revenue\<close> is the
  payload's value (or 0) as it came, and \<open>revenue_formatted\<close> is \<open>formatRevenue\<close> of it.
\<close>

theorem revenue_formatting:
  "(\<not> truthy cents \<longrightarrow> formatRevenue h cents = Inr ''$0'') \<and>
   formatRevenue h (JNum (Fin 0)) = Inr ''$0'' \<and>
   formatRevenue h JUndefined = Inr ''$0'' \<and>
   formatRevenue h JNull = Inr ''$0'' \<and>
   (truthy (JNum c) \<longrightarrow>
      (num_ge (num_div c 100) 1000000 \<longrightarrow>
         formatRevenue h (JNum c) =
           Inr (''$'' @ toFixed1 h (num_div (num_div c 100) 1000000) @ ''M'') \<and>
         (\<forall>x. num_div (num_div c 100) 1000000 = Fin x \<and> x < 10 ^ 21 \<longrightarrow>
            formatRevenue h (JNum c) = Inr (''$'' @ one_decimal x @ ''M''))) \<and>
      (num_ge (num_div c 100) 1000 \<and> \<not> num_ge (num_div c 100) 1000000 \<longrightarrow>
         (\<exists>x. num_div (num_div c 100) 1000 = Fin x \<and> 0 \<le> x \<and> x < 10 ^ 21 \<and>
              formatRevenue h (JNum c) = Inr (''$'' @ one_decimal x @ ''K''))) \<and>
      (\<not> num_ge (num_div c 100) 1000 \<longrightarrow>
         formatRevenue h (JNum c) = Inr (''$'' @ locale_string h (num_div c 100)))) \<and>
   (0 \<le> x \<and> x < 10 ^ 21 \<longrightarrow>
      toFixed1 h (Fin x) = one_decimal x \<and>
      one_decimal x =
        dec (nat \<lfloor>x * 10 + 1 / 2\<rfloor> div 10) @ ''.'' @ [digit_char (nat \<lfloor>x * 10 + 1 / 2\<rfloor> mod 10)] \<and>
      \<bar>of_nat (nat \<lfloor>x * 10 + 1 / 2\<rfloor>) / 10 - x\<bar> \<le> 1 / 20) \<and>
   formatRevenue h (JNum (Fin 2500000)) = Inr ''$25.0K'' \<and>
   formatRevenue h (JNum (Fin 150000000)) = Inr ''$1.5M'' \<and>
   (locale_string h (Fin 500) = ''500'' \<longrightarrow> formatRevenue h (JNum (Fin 50000)) = Inr ''$500'') \<and>
   (truthy rawData \<longrightarrow>
      (\<forall>r. extractEssentialRevenueData h rawData platform identifier = Inr r \<and>
           get_prop r ''error'' = JUndefined \<longrightarrow>
         get_prop (get_prop r ''revenue_metrics'') ''last_month_revenue'' =
           js_or (opt (get_prop rawData ''worldwide_last_month_revenue'') ''value'') (JNum (Fin 0)) \<and>
         (\<exists>formatted.
            formatRevenue h
              (js_or (opt (get_prop rawData ''worldwide_last_month_revenue'') ''value'')
                 (JNum (Fin 0))) = Inr formatted \<and>
            get_prop (get_prop r ''revenue_metrics'') ''revenue_formatted'' = JStr formatted)))"
proof (intro conjI impI allI)
  show "formatRevenue h cents = Inr ''$0''" if "\<not> truthy cents"
    using that by (simp add: formatRevenue_def)
  show "formatRevenue h (JNum (Fin 0)) = Inr ''$0''" "formatRevenue h JUndefined = Inr ''$0''"
    "formatRevenue h JNull = Inr ''$0''"
    by (simp_all add: formatRevenue_def)
  show m: "formatRevenue h (JNum c) =
           Inr (''$'' @ toFixed1 h (num_div (num_div c 100) 1000000) @ ''M'')"
    if "truthy (JNum c)" "num_ge (num_div c 100) 1000000"
    using that by (simp only: formatRevenue_number if_True)
  show "formatRevenue h (JNum c) = Inr (''$'' @ one_decimal y @ ''M'')"
    if "truthy (JNum c)" "num_ge (num_div c 100) 1000000"
      "num_div (num_div c 100) 1000000 = Fin y \<and> y < 10 ^ 21" for y
  proof -
    from that(3) have y: "num_div (num_div c 100) 1000000 = Fin y" "y < 10 ^ 21" by simp_all
    from millions_nonneg [OF that(2) y(1)] have "0 \<le> y" .
    then have "toFixed1 h (Fin y) = one_decimal y" using y(2) by (rule toFixed1_one_decimal)
    with m [OF that(1,2)] y(1) show ?thesis by simp
  qed
  show "\<exists>x. num_div (num_div c 100) 1000 = Fin x \<and> 0 \<le> x \<and> x < 10 ^ 21 \<and>
              formatRevenue h (JNum c) = Inr (''$'' @ one_decimal x @ ''K'')"
    if "truthy (JNum c)" "num_ge (num_div c 100) 1000 \<and> \<not> num_ge (num_div c 100) 1000000"
  proof -
    from that(2) have k: "num_ge (num_div c 100) 1000" "\<not> num_ge (num_div c 100) 1000000"
      by simp_all
    from thousands_finite [OF k] obtain y where
      y: "num_div (num_div c 100) 1000 = Fin y" "0 \<le> y" "y < 10 ^ 21" by blast
    have "formatRevenue h (JNum c) = Inr (''$'' @ toFixed1 h (num_div (num_div c 100) 1000) @ ''K'')"
      using that(1) k by (simp only: formatRevenue_number if_True if_False)
    also have "toFixed1 h (num_div (num_div c 100) 1000) = one_decimal y"
      unfolding y(1) using y(2,3) by (rule toFixed1_one_decimal)
    finally show ?thesis using y by blast
  qed
  show "formatRevenue h (JNum c) = Inr (''$'' @ locale_string h (num_div c 100))"
    if "truthy (JNum c)" "\<not> num_ge (num_div c 100) 1000"
  proof -
    have "\<not> num_ge (num_div c 100) 1000000"
      using that(2) by (auto simp: num_ge_def split: jsnum.splits)
    with that show ?thesis by (simp only: formatRevenue_number if_False)
  qed
  show "toFixed1 h (Fin x) = one_decimal x" if "0 \<le> x \<and> x < 10 ^ 21"
    using that toFixed1_one_decimal [of x h] by blast
  show "one_decimal x =
        dec (nat \<lfloor>x * 10 + 1 / 2\<rfloor> div 10) @ ''.'' @ [digit_char (nat \<lfloor>x * 10 + 1 / 2\<rfloor> mod 10)]"
    by (simp only: one_decimal_def Let_def)
  show "\<bar>of_nat (nat \<lfloor>x * 10 + 1 / 2\<rfloor>) / 10 - x\<bar> \<le> 1 / 20" if "0 \<le> x \<and> x < 10 ^ 21"
    using that nearest_tenth [of x] by blast
  show "formatRevenue h (JNum (Fin 2500000)) = Inr ''$25.0K''"
    by (rule format_2500000)
  show "formatRevenue h (JNum (Fin 150000000)) = Inr ''$1.5M''"
    by (rule format_150000000)
  show "formatRevenue h (JNum (Fin 50000)) = Inr ''$500''" if "locale_string h (Fin 500) = ''500''"
    using that by (simp add: format_50000)
next
  fix r
  assume "truthy rawData"
    and "extractEssentialRevenueData h rawData platform identifier = Inr r \<and>
         get_prop r ''error'' = JUndefined"
  then show "get_prop (get_prop r ''revenue_metrics'') ''last_month_revenue'' =
           js_or (opt (get_prop rawData ''worldwide_last_month_revenue'') ''value'') (JNum (Fin 0))"
    and "\<exists>formatted.
            formatRevenue h
              (js_or (opt (get_prop rawData ''worldwide_last_month_revenue'') ''value'')
                 (JNum (Fin 0))) = Inr formatted \<and>
            get_prop (get_prop r ''revenue_metrics'') ''revenue_formatted'' = JStr formatted"
    using extract_revenue_fields by blast+
qed

theorem category_rankings_resolution_witness:
  "extractCategoryRankings JNull ''ios'' = JObj [] \<and>
   extractCategoryRankings rankings_sample ''ios'' =
     JObj [(''top_free'', JNum (Fin 3)), (''top_grossing'', JNull), (''top_paid'', JNull)] \<and>
   extractCategoryRankings rankings_sample ''android'' =
     JObj [(''top_free'', JNum (Fin 7)), (''top_grossing'', JNull), (''top_paid'', JNull)]"
proof -
  have i: "dec 0 = ''0''" by code_simp
  from category_rankings_resolution [of JNull "''ios''"]
    category_rankings_resolution [of rankings_sample "''ios''"]
    category_rankings_resolution [of rankings_sample "''android''"]
  show ?thesis
    by (simp add: rankings_sample_def Let_def opt_def i)
qed

lemma take3_ten_apps:
  "take 3 ten_apps =
     [JObj [(''title'', JStr ''1''), (''score'', JNum (Fin 1))],
      JObj [(''title'', JStr ''2''), (''score'', JNum (Fin 2))],
      JObj [(''title'', JStr ''3''), (''score'', JNum (Fin 3))]]"
  by code_simp

lemma length_ten_apps: "length ten_apps = 10"
  by (simp add: ten_apps_def)

theorem competitors_and_iap_bounded_witness:
  "top_competitors (JObj []) = Inr (JArr []) \<and>
   top_competitors (JObj [(''related_apps'', JArr ten_apps)]) =
     Inr (JArr
       [JObj [(''name'', JStr ''1''), (''rating'', JNum (Fin 1)), (''price'', JStr ''Free'')],
        JObj [(''name'', JStr ''2''), (''rating'', JNum (Fin 2)), (''price'', JStr ''Free'')],
        JObj [(''name'', JStr ''3''), (''rating'', JNum (Fin 3)), (''price'', JStr ''Free'')]]) \<and>
   (\<exists>e. top_competitors (JObj [(''related_apps'', JArr [JNull])]) = Inl e) \<and>
   extractTopIAPPrices JNull = JArr [] \<and>
   extractTopIAPPrices iap_sample = JArr [JStr ''$0.99'', JStr ''$4.99''] \<and>
   set_values [JStr ''$0.99'', JStr ''$4.99'', JStr ''$0.99''] = [JStr ''$0.99'', JStr ''$4.99'']"
proof -
  have n: "\<not> nullish (JObj kvs)" "truthy (JObj kvs)" for kvs by simp_all
  have a: "get_prop (JObj []) ''related_apps'' = JUndefined"
    "get_prop (JObj [(''related_apps'', JArr ten_apps)]) ''related_apps'' = JArr ten_apps"
    "get_prop (JObj [(''related_apps'', JArr [JNull])]) ''related_apps'' = JArr [JNull]"
    by simp_all
  have u: "get_prop iap_sample ''US'' =
             JArr [JObj [(''price'', JStr ''$0.99'')], JObj [(''price'', JStr ''$4.99'')],
                   JObj [(''price'', JStr ''$0.99'')], JObj [(''price'', JStr ''$9.99'')]]"
    by (simp add: iap_sample_def)
  have p: "list_all primitive [JStr ''$0.99'', JStr ''$4.99'', JStr ''$0.99'']"
    by simp
  from competitors_and_iap_bounded [where rawData = "JObj []" and apps = "[]"
      and iapData = iap_sample
      and us = "[JObj [(''price'', JStr ''$0.99'')], JObj [(''price'', JStr ''$4.99'')],
                 JObj [(''price'', JStr ''$0.99'')], JObj [(''price'', JStr ''$9.99'')]]"
      and other = iap_sample
      and prices = "[JStr ''$0.99'', JStr ''$4.99'', JStr ''$0.99'']"]
    competitors_and_iap_bounded [where rawData = "JObj [(''related_apps'', JArr ten_apps)]"
      and apps = ten_apps and iapData = JNull]
    competitors_and_iap_bounded [where rawData = "JObj [(''related_apps'', JArr [JNull])]"
      and apps = "[JNull]"]
  show ?thesis
    using n a u p
    by (simp add: take3_ten_apps length_ten_apps reduced_def js_or_def opt_def iap_sample_def
        stored_def)
qed

theorem revenue_formatting_witness:
  "\<forall>h. formatRevenue h (JStr []) = Inr ''$0'' \<and>
       formatRevenue h (JNum (Fin 123456789)) = Inr ''$1.2M'' \<and>
       formatRevenue h (JNum (Fin 123456)) = Inr ''$1.2K'' \<and>
       formatRevenue (h\<lparr>locale_string := en_US_string\<rparr>) (JNum (Fin 50000)) = Inr ''$500'' \<and>
       formatRevenue (h\<lparr>locale_string := en_US_string\<rparr>) (JNum (Fin 99999)) = Inr ''$999.99'' \<and>
       toFixed1 h (Fin (5 / 4)) = ''1.3''"
proof
  fix h :: host
  let ?h = "h\<lparr>locale_string := en_US_string\<rparr>"
  have d1: "num_div (Fin 123456789) 100 = Fin (5302428712241725 / 4294967296)"
    "num_div (Fin (5302428712241725 / 4294967296)) 1000000
       = Fin (5559999489367579 / 4503599627370496)"
    by code_simp+
  have d2: "num_div (Fin 123456) 100 = Fin (2714826150374277 / 2199023255552)"
    "num_div (Fin (2714826150374277 / 2199023255552)) 1000
       = Fin (5559963955966519 / 4503599627370496)"
    by code_simp+
  have d4: "num_div (Fin 99999) 100 = Fin (4398002530638889 / 4398046511104)"
    by code_simp
  have f1: "one_decimal (5559999489367579 / 4503599627370496) = ''1.2''"
    and f2: "one_decimal (5559963955966519 / 4503599627370496) = ''1.2''"
    and f3: "one_decimal (5 / 4) = ''1.3''"
    by code_simp+
  have t1: "toFixed1 h (Fin (5559999489367579 / 4503599627370496)) = ''1.2''"
    by code_simp
  have l1: "en_US_string (Fin 500) = ''500''"
    and l2: "en_US_string (Fin (4398002530638889 / 4398046511104)) = ''999.99''"
    by code_simp+
  have 1: "formatRevenue h (JStr []) = Inr ''$0'' \<and>
           formatRevenue h (JNum (Fin 123456789)) = Inr ''$1.2M'' \<and>
           toFixed1 h (Fin (5 / 4)) = ''1.3''"
    using revenue_formatting [where cents = "JStr []" and h = h and c = "Fin 123456789"
        and x = "5 / 4"]
    by (simp add: d1 t1 f3 num_ge_def)
  have 2: "formatRevenue h (JNum (Fin 123456)) = Inr ''$1.2K''"
  proof -
    have k: "truthy (JNum (Fin 123456))"
      "num_ge (num_div (Fin 123456) 100) 1000 \<and> \<not> num_ge (num_div (Fin 123456) 100) 1000000"
      by (simp_all add: d2 num_ge_def)
    from revenue_formatting [where h = h and c = "Fin 123456"] k
    obtain y where y: "num_div (num_div (Fin 123456) 100) 1000 = Fin y"
      "formatRevenue h (JNum (Fin 123456)) = Inr (''$'' @ one_decimal y @ ''K'')"
      by blast
    from y(1) have "Fin (5559963955966519 / 4503599627370496) = Fin y"
      by (simp only: d2)
    then have "y = 5559963955966519 / 4503599627370496"
      by (simp only: jsnum.inject)
    with y(2) f2 show ?thesis by simp
  qed
  have 3: "formatRevenue ?h (JNum (Fin 50000)) = Inr ''$500''"
    using revenue_formatting [where h = ?h] by (simp add: l1)
  have 4: "formatRevenue ?h (JNum (Fin 99999)) = Inr ''$999.99''"
    using revenue_formatting [where h = ?h and c = "Fin 99999"]
    by (simp add: d4 l2 num_ge_def)
  from 1 2 3 4
  show "formatRevenue h (JStr []) = Inr ''$0'' \<and>
       formatRevenue h (JNum (Fin 123456789)) = Inr ''$1.2M'' \<and>
       formatRevenue h (JNum (Fin 123456)) = Inr ''$1.2K'' \<and>
       formatRevenue ?h (JNum (Fin 50000)) = Inr ''$500'' \<and>
       formatRevenue ?h (JNum (Fin 99999)) = Inr ''$999.99'' \<and>
       toFixed1 h (Fin (5 / 4)) = ''1.3''"
    by blast
qed

section \<open>Properties of the revenue tools\<close>

lemma process_app_thrown:
  "fst (callSensorTowerAPI up (endpoint_of t a) (cacheKey_of t a) country w) = Inl e \<Longrightarrow>
   fst (process_app t h up inc country a w) = failure_item t a (message e)"
  by (auto simp: process_app_def try_app_def Let_def failure_item_def split: prod.splits sum.splits)

lemma competitive_analysis_of_extract:
  assumes "truthy raw" "extractEssentialRevenueData h raw p i = Inr v"
  shows "\<not> nullish v \<and>
         (if truthy (get_prop v ''competitive_analysis'')
          then delete_prop v ''competitive_analysis'' else v) = delete_prop v ''competitive_analysis''"
proof -
  from assms(2) consider e where "v = degraded e"
    | formatted countries competitors where
      "v = essential_record raw p i formatted countries competitors"
    unfolding extract_eq [OF assms(1)] by (auto split: sum.splits)
  then show ?thesis
  proof cases
    case 1
    then show ?thesis by (simp add: degraded_def)
  next
    case 2
    then show ?thesis by (simp add: essential_record_def)
  qed
qed

lemma process_app_fetched:
  assumes "fst (callSensorTowerAPI up (endpoint_of t a) (cacheKey_of t a) country w) = Inr raw"
    and "extractEssentialRevenueData h raw (tool_platform t) (as_value t a) = Inr v"
  shows "inc \<Longrightarrow> fst (process_app t h up inc country a w) = success_item t a v"
    and "\<not> inc \<Longrightarrow> truthy raw \<Longrightarrow>
         fst (process_app t h up inc country a w)
           = success_item t a (delete_prop v ''competitive_analysis'')"
    and "\<not> inc \<Longrightarrow> \<not> truthy raw \<Longrightarrow>
         fst (process_app t h up inc country a w)
           = failure_item t a
               (''Cannot read properties of null (reading '' @ [CHR 0x27]
                @ ''competitive_analysis'' @ [CHR 0x27] @ '')'')"
proof -
  obtain w' where c: "callSensorTowerAPI up (endpoint_of t a) (cacheKey_of t a) country w = (Inr raw, w')"
    using assms(1) by (cases "callSensorTowerAPI up (endpoint_of t a) (cacheKey_of t a) country w") simp
  show "fst (process_app t h up inc country a w) = success_item t a v" if "inc"
    using that c assms(2) by (simp add: process_app_def try_app_def success_item_def)
  show "fst (process_app t h up inc country a w)
           = success_item t a (delete_prop v ''competitive_analysis'')"
    if "\<not> inc" "truthy raw"
  proof -
    note k = competitive_analysis_of_extract [OF that(2) assms(2)]
    then have d: "dot v ''competitive_analysis'' = Inr (get_prop v ''competitive_analysis'')"
      by (simp add: dot_defined)
    show ?thesis
      using that(1) c assms(2) k
      by (simp add: process_app_def try_app_def success_item_def d)
  qed
  show "fst (process_app t h up inc country a w)
           = failure_item t a
               (''Cannot read properties of null (reading '' @ [CHR 0x27]
                @ ''competitive_analysis'' @ [CHR 0x27] @ '')'')"
    if "\<not> inc" "\<not> truthy raw"
  proof -
    from that(2) assms(2) have "v = JNull"
      by (simp add: extractEssentialRevenueData_def)
    with that(1) c assms(2) show ?thesis
      by (simp add: process_app_def try_app_def failure_item_def dot_def)
  qed
qed

lemma process_app_shape:
  "(\<exists>d. fst (process_app t h up inc country a w) = success_item t a d) \<or>
   (\<exists>m. fst (process_app t h up inc country a w) = failure_item t a m)"
proof (cases "fst (callSensorTowerAPI up (endpoint_of t a) (cacheKey_of t a) country w)")
  case (Inl e)
  then have "fst (process_app t h up inc country a w) = failure_item t a (message e)"
    by (rule process_app_thrown)
  then show ?thesis by blast
next
  case (Inr raw)
  obtain v where v: "extractEssentialRevenueData h raw (tool_platform t) (as_value t a) = Inr v"
    using extract_returns by blast
  show ?thesis
    using process_app_fetched [OF Inr v, of inc] by (cases inc; cases "truthy raw") blast+
qed

lemma process_all_length:
  "length (fst (process_all t h up inc country ids w)) = length ids"
  by (induction ids arbitrary: w) (simp_all add: split_beta Let_def)

lemma process_all_snoc:
  "process_all t h up inc country (ids @ [a]) w =
     (let (rs, w') = process_all t h up inc country ids w;
          (r, w'') = process_app t h up inc country a w'
      in (rs @ [r], w''))"
  by (induction ids arbitrary: w) (simp_all add: split_beta Let_def)

lemma process_all_take:
  "i \<le> length ids \<Longrightarrow>
   fst (process_all t h up inc country (take i ids) w) =
   take i (fst (process_all t h up inc country ids w))"
proof (induction ids arbitrary: w i)
  case Nil
  then show ?case by simp
next
  case (Cons a ids)
  then show ?case by (cases i) (simp_all add: split_beta Let_def)
qed

lemma process_all_nth:
  assumes "i < length ids"
  shows "fst (process_all t h up inc country ids w) ! i =
         fst (process_app t h up inc country (ids ! i)
                (snd (process_all t h up inc country (take i ids) w)))"
proof -
  from assms have "take (Suc i) ids = take i ids @ [ids ! i]"
    by (simp add: take_Suc_conv_app_nth)
  then have "fst (process_all t h up inc country (take (Suc i) ids) w) =
             fst (process_all t h up inc country (take i ids) w) @
               [fst (process_app t h up inc country (ids ! i)
                       (snd (process_all t h up inc country (take i ids) w)))]"
    by (simp add: process_all_snoc split_beta Let_def)
  moreover have "fst (process_all t h up inc country (take (Suc i) ids) w) =
                 take (Suc i) (fst (process_all t h up inc country ids w))"
    using assms by (simp add: process_all_take)
  moreover have "length (fst (process_all t h up inc country (take i ids) w)) = i"
    using assms by (simp add: process_all_length)
  ultimately show ?thesis
    using assms
    by (metis Suc_leI process_all_length length_take lessI min.absorb2 nth_append_length nth_take)
qed

lemma item_flags:
  assumes "id_field t \<noteq> ''success''"
  shows "get_prop (success_item t a d) ''success'' = JBool True"
    and "get_prop (failure_item t a m) ''success'' = JBool False"
    and "get_prop (success_item t a d) (id_field t) = as_value t a"
    and "get_prop (failure_item t a m) (id_field t) = as_value t a"
  using assms by (simp_all add: success_item_def failure_item_def)

lemma count_split:
  "length (filter P xs) + length (filter (\<lambda>x. \<not> P x) xs) = length xs"
  by (induction xs) simp_all

text \<open>
  The two handlers are \<open>revenue_tool\<close> at \<open>ios_tool\<close> and \<open>android_tool\<close>, whose
  identifier property is not named \<open>success\<close>. For the list of identifiers of a call (a
  single identifier counts as a list of one): the results are as many as the identifiers
  and carry them in input order; each result is a success \<open>{identifier, success: true,
  data}\<close> or a failure \<open>{identifier, success: false, error}\<close>; the result of an identifier
  is the one its own iteration makes in the world the earlier iterations left, so when
  its fetch throws it is the failure with the thrown message, and the later identifiers
  are processed all the same. When its fetch succeeds, the result is the success with the
  extracted data when the competitors were asked for; when they were not, it is the
  success with the extracted data without the competitors for a truthy payload, and for
  a falsy payload (extracted as null) the failure whose message is that of reading
  \<open>competitive_analysis\<close> of null. The summary holds the results, their number, the
  number of successes and of failures, which add up to the total.
\<close>

lemma batch_results:
  assumes "id_field t \<noteq> ''success''"
    and "ids = (case appIds of One a \<Rightarrow> [a] | Many l \<Rightarrow> l)"
    and "results = fst (process_all t h up includeCompetitors country ids w)"
    and "summary = fst (revenue_tool t h up appIds includeCompetitors country w)"
  shows "get_prop summary ''apps'' = JArr results \<and>
         length results = length ids \<and>
         map (\<lambda>r. get_prop r (id_field t)) results = map (as_value t) ids \<and>
         (\<forall>i < length ids.
            (\<exists>d. results ! i = success_item t (ids ! i) d) \<or>
            (\<exists>m. results ! i = failure_item t (ids ! i) m)) \<and>
         (\<forall>i < length ids. \<forall>e.
            fst (callSensorTowerAPI up (endpoint_of t (ids ! i)) (cacheKey_of t (ids ! i)) country
                   (snd (process_all t h up includeCompetitors country (take i ids) w))) = Inl e
            \<longrightarrow> results ! i = failure_item t (ids ! i) (message e)) \<and>
         (\<forall>i < length ids. \<forall>raw v.
            fst (callSensorTowerAPI up (endpoint_of t (ids ! i)) (cacheKey_of t (ids ! i)) country
                   (snd (process_all t h up includeCompetitors country (take i ids) w))) = Inr raw \<and>
            extractEssentialRevenueData h raw (tool_platform t) (as_value t (ids ! i)) = Inr v
            \<longrightarrow> results ! i =
                  (if includeCompetitors then success_item t (ids ! i) v
                   else if truthy raw
                   then success_item t (ids ! i) (delete_prop v ''competitive_analysis'')
                   else failure_item t (ids ! i)
                          (''Cannot read properties of null (reading '' @ [CHR 0x27]
                           @ ''competitive_analysis'' @ [CHR 0x27] @ '')''))) \<and>
         get_prop summary ''total_apps'' = JNum (Fin (of_nat (length ids))) \<and>
         get_prop summary ''successful'' =
           JNum (Fin (of_nat (length (filter (\<lambda>r. get_prop r ''success'' = JBool True) results)))) \<and>
         get_prop summary ''failed'' =
           JNum (Fin (of_nat (length (filter (\<lambda>r. get_prop r ''success'' = JBool False) results)))) \<and>
         length (filter (\<lambda>r. get_prop r ''success'' = JBool True) results)
           + length (filter (\<lambda>r. get_prop r ''success'' = JBool False) results) = length ids"
proof -
  let ?w = "\<lambda>i. snd (process_all t h up includeCompetitors country (take i ids) w)"
  have len: "length results = length ids"
    unfolding assms(3) by (rule process_all_length)
  have nth: "results ! i = fst (process_app t h up includeCompetitors country (ids ! i) (?w i))"
    if "i < length ids" for i
    unfolding assms(3) using that by (rule process_all_nth)
  have shape: "(\<exists>d. results ! i = success_item t (ids ! i) d) \<or>
               (\<exists>m. results ! i = failure_item t (ids ! i) m)" if "i < length ids" for i
    unfolding nth [OF that] by (rule process_app_shape)
  have idf: "get_prop (results ! i) (id_field t) = as_value t (ids ! i)" if "i < length ids" for i
    using shape [OF that] item_flags(3,4) [OF assms(1)] by auto
  have ids: "map (\<lambda>r. get_prop r (id_field t)) results = map (as_value t) ids"
    using len idf by (auto simp: list_eq_iff_nth_eq)
  have flag: "get_prop r ''success'' = JBool True \<or> get_prop r ''success'' = JBool False"
    if "r \<in> set results" for r
  proof -
    from that len obtain i where "i < length ids" "r = results ! i"
      by (metis in_set_conv_nth)
    with shape [of i] item_flags(1,2) [OF assms(1)] show ?thesis by auto
  qed
  have t: "filter (\<lambda>r. truthy (get_prop r ''success'')) results
             = filter (\<lambda>r. get_prop r ''success'' = JBool True) results"
  proof (intro filter_cong refl)
    fix r assume "r \<in> set results"
    from flag [OF this] show "truthy (get_prop r ''success'') = (get_prop r ''success'' = JBool True)"
      by (elim disjE) simp_all
  qed
  have f: "filter (\<lambda>r. \<not> truthy (get_prop r ''success'')) results
             = filter (\<lambda>r. get_prop r ''success'' = JBool False) results"
  proof (intro filter_cong refl)
    fix r assume "r \<in> set results"
    from flag [OF this]
    show "(\<not> truthy (get_prop r ''success'')) = (get_prop r ''success'' = JBool False)"
      by (elim disjE) simp_all
  qed
  have s: "summary =
     JObj [(''total_apps'', JNum (Fin (of_nat (length ids)))),
           (''successful'',
              JNum (Fin (of_nat (length (filter (\<lambda>r. truthy (get_prop r ''success'')) results))))),
           (''failed'',
              JNum (Fin (of_nat (length (filter (\<lambda>r. \<not> truthy (get_prop r ''success'')) results))))),
           (''apps'', JArr results)]"
    unfolding assms(2,3,4) by (simp add: revenue_tool_def Let_def split_beta)
  have thrown: "results ! i = failure_item t (ids ! i) (message e)"
    if "i < length ids"
      "fst (callSensorTowerAPI up (endpoint_of t (ids ! i)) (cacheKey_of t (ids ! i)) country (?w i)) = Inl e"
    for i e
    unfolding nth [OF that(1)] using that(2) by (rule process_app_thrown)
  have fetched: "results ! i =
                  (if includeCompetitors then success_item t (ids ! i) v
                   else if truthy raw
                   then success_item t (ids ! i) (delete_prop v ''competitive_analysis'')
                   else failure_item t (ids ! i)
                          (''Cannot read properties of null (reading '' @ [CHR 0x27]
                           @ ''competitive_analysis'' @ [CHR 0x27] @ '')''))"
    if "i < length ids"
      "fst (callSensorTowerAPI up (endpoint_of t (ids ! i)) (cacheKey_of t (ids ! i)) country (?w i)) = Inr raw"
      "extractEssentialRevenueData h raw (tool_platform t) (as_value t (ids ! i)) = Inr v"
    for i raw v
  proof (cases includeCompetitors)
    case True
    with process_app_fetched(1) [OF that(2,3)] show ?thesis
      unfolding nth [OF that(1)] by (simp only: if_True)
  next
    case ni: False
    show ?thesis
    proof (cases "truthy raw")
      case True
      from process_app_fetched(2) [OF that(2,3) ni True] show ?thesis
        unfolding nth [OF that(1)] using ni True by (simp only: if_True if_False)
    next
      case False
      from process_app_fetched(3) [OF that(2,3) ni False] show ?thesis
        unfolding nth [OF that(1)] using ni False by (simp only: if_False)
    qed
  qed
  have cnt: "length (filter (\<lambda>r. get_prop r ''success'' = JBool True) results)
           + length (filter (\<lambda>r. get_prop r ''success'' = JBool False) results) = length ids"
    using count_split [of "\<lambda>r. truthy (get_prop r ''success'')" results]
    unfolding t f len .
  have c1: "get_prop summary ''apps'' = JArr results"
    unfolding s by simp
  have c4: "\<forall>i < length ids.
            (\<exists>d. results ! i = success_item t (ids ! i) d) \<or>
            (\<exists>m. results ! i = failure_item t (ids ! i) m)"
    by (intro allI impI) (rule shape)
  have c5: "\<forall>i < length ids. \<forall>e.
            fst (callSensorTowerAPI up (endpoint_of t (ids ! i)) (cacheKey_of t (ids ! i)) country
                   (snd (process_all t h up includeCompetitors country (take i ids) w))) = Inl e
            \<longrightarrow> results ! i = failure_item t (ids ! i) (message e)"
  proof (intro allI impI)
    fix i e
    assume "i < length ids"
      "fst (callSensorTowerAPI up (endpoint_of t (ids ! i)) (cacheKey_of t (ids ! i)) country
                   (snd (process_all t h up includeCompetitors country (take i ids) w))) = Inl e"
    then show "results ! i = failure_item t (ids ! i) (message e)"
      by (rule thrown)
  qed
  have c6: "\<forall>i < length ids. \<forall>raw v.
            fst (callSensorTowerAPI up (endpoint_of t (ids ! i)) (cacheKey_of t (ids ! i)) country
                   (snd (process_all t h up includeCompetitors country (take i ids) w))) = Inr raw \<and>
            extractEssentialRevenueData h raw (tool_platform t) (as_value t (ids ! i)) = Inr v
            \<longrightarrow> results ! i =
                  (if includeCompetitors then success_item t (ids ! i) v
                   else if truthy raw
                   then success_item t (ids ! i) (delete_prop v ''competitive_analysis'')
                   else failure_item t (ids ! i)
                          (''Cannot read properties of null (reading '' @ [CHR 0x27]
                           @ ''competitive_analysis'' @ [CHR 0x27] @ '')''))"
  proof (intro allI impI, elim conjE)
    fix i raw v
    assume "i < length ids"
      "fst (callSensorTowerAPI up (endpoint_of t (ids ! i)) (cacheKey_of t (ids ! i)) country
                   (snd (process_all t h up includeCompetitors country (take i ids) w))) = Inr raw"
      "extractEssentialRevenueData h raw (tool_platform t) (as_value t (ids ! i)) = Inr v"
    then show "results ! i =
                  (if includeCompetitors then success_item t (ids ! i) v
                   else if truthy raw
                   then success_item t (ids ! i) (delete_prop v ''competitive_analysis'')
                   else failure_item t (ids ! i)
                          (''Cannot read properties of null (reading '' @ [CHR 0x27]
                           @ ''competitive_analysis'' @ [CHR 0x27] @ '')''))"
      by (rule fetched)
  qed
  have c7: "get_prop summary ''total_apps'' = JNum (Fin (of_nat (length ids)))"
    unfolding s by simp
  have c8: "get_prop summary ''successful'' =
           JNum (Fin (of_nat (length (filter (\<lambda>r. get_prop r ''success'' = JBool True) results))))"
    unfolding s t by simp
  have c9: "get_prop summary ''failed'' =
           JNum (Fin (of_nat (length (filter (\<lambda>r. get_prop r ''success'' = JBool False) results))))"
    unfolding s f by simp
  show ?thesis
    by (intro conjI c1 len ids c4 c5 c6 c7 c8 c9 cnt)
qed

lemma extract_revenue_payload:
  "extractEssentialRevenueData h revenue_payload p i =
     Inr (essential_record revenue_payload p i ''$25.0K'' (JArr []) (JArr []))"
proof -
  have t: "truthy revenue_payload" "\<not> nullish revenue_payload"
    by (simp_all add: revenue_payload_def)
  have 1: "top_countries revenue_payload = Inr (JArr [])"
    unfolding top_countries_cases [OF t(2)] by (simp add: revenue_payload_def)
  have 2: "top_competitors revenue_payload = Inr (JArr [])"
    by (rule top_competitors_absent [OF t(2)]) (simp add: revenue_payload_def)
  have 3: "formatRevenue h
             (js_or (opt (get_prop revenue_payload ''worldwide_last_month_revenue'') ''value'')
                (JNum (Fin 0))) = Inr ''$25.0K''"
    by (simp add: revenue_payload_def opt_def js_or_def format_2500000)
  show ?thesis unfolding extract_eq [OF t(1)] 1 2 3 by simp
qed

lemma batch_of_three:
  "fst (process_all ios_tool h up_second_fails True None [1, 2, 3] empty_world) =
     [success_item ios_tool 1 (essential_record revenue_payload ''ios'' (JNum (Fin 1)) ''$25.0K'' (JArr []) (JArr [])),
      failure_item ios_tool 2 ''Failed to fetch data from Sensor Tower: HTTP 500: Internal Server Error'',
      success_item ios_tool 3 (essential_record revenue_payload ''ios'' (JNum (Fin 3)) ''$25.0K'' (JArr []) (JArr []))]"
proof -
  have k: "show_int 1 = ''1''" "show_int 2 = ''2''" "show_int 3 = ''3''"
    by code_simp+
  have d: "dec 500 = ''500''" by code_simp
  have i: "\<not> str_includes ''HTTP 500: Internal Server Error'' ''Rate limit''"
    by simp
  show ?thesis
    using i
    by (simp add: process_app_def try_app_def callSensorTowerAPI_def fresh_def empty_world_def
        up_second_fails_def ios_tool_def k d read_reply_def response_ok_def rethrow_def
        finalCacheKey_def finalEndpoint_def Let_def success_item_def failure_item_def
        extract_revenue_payload del: str_includes.simps)
qed

text \<open>
  The batch of the identifiers 1, 2, 3 whose second fetch is answered 500: three results
  in input order, two successes with their data, one failure with the message of the
  fetch, on every host.
\<close>

lemma batch_second_fails:
  "get_prop (fst (sensor_tower_ios_revenue h up_second_fails (Many [1, 2, 3]) True None
                    empty_world)) ''total_apps'' = JNum (Fin 3) \<and>
   get_prop (fst (sensor_tower_ios_revenue h up_second_fails (Many [1, 2, 3]) True None
                    empty_world)) ''successful'' = JNum (Fin 2) \<and>
   get_prop (fst (sensor_tower_ios_revenue h up_second_fails (Many [1, 2, 3]) True None
                    empty_world)) ''failed'' = JNum (Fin 1) \<and>
   get_prop (fst (sensor_tower_ios_revenue h up_second_fails (Many [1, 2, 3]) True None
                    empty_world)) ''apps'' =
     JArr [success_item ios_tool 1
             (essential_record revenue_payload ''ios'' (JNum (Fin 1)) ''$25.0K'' (JArr []) (JArr [])),
           failure_item ios_tool 2
             ''Failed to fetch data from Sensor Tower: HTTP 500: Internal Server Error'',
           success_item ios_tool 3
             (essential_record revenue_payload ''ios'' (JNum (Fin 3)) ''$25.0K'' (JArr []) (JArr []))]"
proof -
  have f: "id_field ios_tool \<noteq> ''success''"
    by (simp add: ios_tool_def)
  have g: "get_prop (success_item ios_tool a d) ''success'' = JBool True"
    "get_prop (failure_item ios_tool a m) ''success'' = JBool False" for a d m
    by (simp_all add: success_item_def failure_item_def ios_tool_def)
  from batch_results [OF f, where appIds = "Many [1, 2, 3]" and ids = "[1, 2, 3]"
      and h = h and up = up_second_fails and includeCompetitors = True and country = None
      and w = empty_world, OF _ refl refl]
  show ?thesis
    unfolding sensor_tower_ios_revenue_def batch_of_three
    by (simp add: g)
qed

text \<open>
  C2 fails on the code for an identifier whose fetch succeeds with a falsy payload when
  the competitors are not asked for. The upstream answers 200 with the body \<open>null\<close>: the
  fetch succeeds and caches the payload, and the extraction returns null, which is not an
  error. With \<open>includeCompetitors = false\<close> the handler then reads
  \<open>essentialData.competitive_analysis\<close> of null, and the identifier is recorded as a
  failure with the message of that TypeError (\<open>successful\<close> 0, \<open>failed\<close> 1); with
  \<open>includeCompetitors = true\<close> the same reply is recorded as the success with the data
  null (\<open>successful\<close> 1, \<open>failed\<close> 0). Both handlers do so.
\<close>

theorem null_payload_recorded_as_failure:
  "callSensorTowerAPI up_null (endpoint_of ios_tool 1) (cacheKey_of ios_tool 1) None empty_world =
     (Inr JNull,
      \<lparr>cache = [''ios_1'' \<mapsto> \<lparr>data = JNull, timestamp = 10\<rparr>], clock = 10,
       sent = [''https://app.sensortower.com/api/ios/apps/1'']\<rparr>) \<and>
   extractEssentialRevenueData h JNull ''ios'' (JNum (Fin 1)) = Inr JNull \<and>
   fst (sensor_tower_ios_revenue h up_null (One 1) False None empty_world) =
     JObj [(''total_apps'', JNum (Fin 1)), (''successful'', JNum (Fin 0)),
           (''failed'', JNum (Fin 1)),
           (''apps'',
              JArr [JObj [(''app_id'', JNum (Fin 1)), (''success'', JBool False),
                          (''error'',
                             JStr (''Cannot read properties of null (reading '' @ [CHR 0x27]
                                   @ ''competitive_analysis'' @ [CHR 0x27] @ '')''))]])] \<and>
   fst (sensor_tower_ios_revenue h up_null (One 1) True None empty_world) =
     JObj [(''total_apps'', JNum (Fin 1)), (''successful'', JNum (Fin 1)),
           (''failed'', JNum (Fin 0)),
           (''apps'',
              JArr [JObj [(''app_id'', JNum (Fin 1)), (''success'', JBool True),
                          (''data'', JNull)]])] \<and>
   fst (sensor_tower_android_revenue h up_null (One ''com.x'') False None empty_world) =
     JObj [(''total_apps'', JNum (Fin 1)), (''successful'', JNum (Fin 0)),
           (''failed'', JNum (Fin 1)),
           (''apps'',
              JArr [JObj [(''package_name'', JStr ''com.x''), (''success'', JBool False),
                          (''error'',
                             JStr (''Cannot read properties of null (reading '' @ [CHR 0x27]
                                   @ ''competitive_analysis'' @ [CHR 0x27] @ '')''))]])] \<and>
   fst (sensor_tower_android_revenue h up_null (One ''com.x'') True None empty_world) =
     JObj [(''total_apps'', JNum (Fin 1)), (''successful'', JNum (Fin 1)),
           (''failed'', JNum (Fin 0)),
           (''apps'',
              JArr [JObj [(''package_name'', JStr ''com.x''), (''success'', JBool True),
                          (''data'', JNull)]])]"
proof -
  have k: "show_int 1 = ''1''"
    by code_simp
  have i: "callSensorTowerAPI up_null (endpoint_of ios_tool 1) (cacheKey_of ios_tool 1) None
             empty_world =
     (Inr JNull,
      \<lparr>cache = [''ios_1'' \<mapsto> \<lparr>data = JNull, timestamp = 10\<rparr>], clock = 10,
       sent = [''https://app.sensortower.com/api/ios/apps/1'']\<rparr>)"
    by (simp add: callSensorTowerAPI_def fresh_def empty_world_def up_null_def ios_tool_def k
        read_reply_def response_ok_def finalCacheKey_def finalEndpoint_def Let_def)
  have a: "fst (callSensorTowerAPI up_null (endpoint_of android_tool ''com.x'')
                  (cacheKey_of android_tool ''com.x'') None empty_world) = Inr JNull"
    by (simp add: callSensorTowerAPI_def fresh_def empty_world_def up_null_def android_tool_def
        read_reply_def response_ok_def finalCacheKey_def finalEndpoint_def Let_def)
  have x: "extractEssentialRevenueData h JNull p v = Inr JNull" for p v
    by (simp add: extractEssentialRevenueData_def)
  have pi: "fst (process_app ios_tool h up_null inc None 1 empty_world) =
              (if inc then success_item ios_tool 1 JNull
               else failure_item ios_tool 1
                      (''Cannot read properties of null (reading '' @ [CHR 0x27]
                       @ ''competitive_analysis'' @ [CHR 0x27] @ '')''))" for inc
    using i by (simp add: process_app_def try_app_def x dot_def success_item_def
        failure_item_def split_beta)
  have pa: "fst (process_app android_tool h up_null inc None ''com.x'' empty_world) =
              (if inc then success_item android_tool ''com.x'' JNull
               else failure_item android_tool ''com.x''
                      (''Cannot read properties of null (reading '' @ [CHR 0x27]
                       @ ''competitive_analysis'' @ [CHR 0x27] @ '')''))" for inc
    using a by (simp add: process_app_def try_app_def x dot_def success_item_def
        failure_item_def split_beta)
  have fi: "id_field ios_tool = ''app_id''" "as_value ios_tool 1 = JNum (Fin 1)"
    and fa: "id_field android_tool = ''package_name''" "as_value android_tool ''com.x'' = JStr ''com.x''"
    by (simp_all add: ios_tool_def android_tool_def)
  have si: "fst (sensor_tower_ios_revenue h up_null (One 1) inc None empty_world) =
       JObj [(''total_apps'', JNum (Fin 1)),
             (''successful'', JNum (Fin (if inc then 1 else 0))),
             (''failed'', JNum (Fin (if inc then 0 else 1))),
             (''apps'', JArr [fst (process_app ios_tool h up_null inc None 1 empty_world)])]"
    for inc
    by (simp add: sensor_tower_ios_revenue_def revenue_tool_def split_beta Let_def pi
        success_item_def failure_item_def fi)
  have sa: "fst (sensor_tower_android_revenue h up_null (One ''com.x'') inc None empty_world) =
       JObj [(''total_apps'', JNum (Fin 1)),
             (''successful'', JNum (Fin (if inc then 1 else 0))),
             (''failed'', JNum (Fin (if inc then 0 else 1))),
             (''apps'',
                JArr [fst (process_app android_tool h up_null inc None ''com.x'' empty_world)])]"
    for inc
    by (simp add: sensor_tower_android_revenue_def revenue_tool_def split_beta Let_def pa
        success_item_def failure_item_def fa)
  show ?thesis
    unfolding si sa pi pa
    by (simp add: i x success_item_def failure_item_def fi fa)
qed

end
